theory Spec2Isabelle
  imports Complex_Main
begin

section \<open>The cell detector of \<open>seg_n.py\<close>\<close>

text \<open>
  \<open>seg_n.py\<close> declares a Keras graph: \<open>residual_block\<close> and \<open>cell_detector\<close> do nothing
  but call layer constructors of the Keras functional API and apply the layers to
  tensors. The two functions are embedded over an explicit interface to the framework
  (\<open>Input\<close>, applying a layer to tensors, \<open>Model\<close>), threaded through a state and
  returning either the exception raised or the value. A concrete interpretation of the
  interface follows: the static shape rules of Keras 2.2 on the TensorFlow 1 backend
  (the versions the imports of the file select), over a store of graph nodes.
  Tensor values are floating-point arrays and are not modelled: only the graph, its
  wiring and the static shapes are.
\<close>

subsection \<open>Layer configurations\<close>

datatype padding = Valid | Same

datatype interpolation = Nearest | Bilinear

text \<open>
  The layers the file constructs, with the keyword arguments it passes. Arguments left
  to their Keras defaults are written out where the file relies on them:
  \<open>ELU()\<close> has \<open>alpha = 1.0\<close>; \<open>Conv2D(filters, kernel_size)\<close> has strides \<open>(1, 1)\<close>,
  padding \<open>'valid'\<close> and no explicit name; \<open>AveragePooling2D\<close> has strides equal to its
  pool size. \<open>Lambda_times c\<close> is \<open>Lambda(lambda x: x * c)\<close>. The float literals
  \<open>0.2\<close> and \<open>0.3\<close> are kept as the decimal fractions written in the source.
\<close>

datatype layer =
    ELU rat
  | Conv2D nat "nat \<times> nat" "nat \<times> nat" padding "string option"
  | Dropout rat
  | Lambda_times rat
  | Add
  | AveragePooling2D "nat \<times> nat" padding
  | UpSampling2D "nat \<times> nat" interpolation
  | Concatenate int

subsection \<open>Exceptions and state\<close>

text \<open>
  A computation takes the state of the framework and returns the exception raised
  (\<open>Inl\<close>) or its value (\<open>Inr\<close>), with the state as it is at that moment. The source has
  no \<open>try\<close>, so sequencing stops at the first exception.
\<close>

type_synonym ('e, 'a, 's) comp = "'s \<Rightarrow> ('e + 'a) \<times> 's"

definition ret :: "'a \<Rightarrow> ('e, 'a, 's) comp" where
  "ret a = (\<lambda>s. (Inr a, s))"

definition bnd :: "('e, 'a, 's) comp \<Rightarrow> ('a \<Rightarrow> ('e, 'b, 's) comp) \<Rightarrow> ('e, 'b, 's) comp" where
  "bnd m f = (\<lambda>s. case m s of (Inl e, s') \<Rightarrow> (Inl e, s') | (Inr a, s') \<Rightarrow> f a s')"

subsection \<open>The interface to Keras\<close>

text \<open>
  \<open>Input shape\<close> is \<open>Input(shape)\<close>; \<open>apply_layer l xs\<close> constructs the layer \<open>l\<close> and calls
  it on the tensors \<open>xs\<close> (\<open>concatenate(xs, axis)\<close> is the layer \<open>Concatenate axis\<close> applied
  to \<open>xs\<close>); \<open>Model i out name\<close> is \<open>Model(inputs=i, outputs=out, name=name)\<close>.
\<close>

record ('t, 'm, 's, 'e) keras =
  Input :: "nat \<times> nat \<times> nat \<Rightarrow> ('e, 't, 's) comp"
  apply_layer :: "layer \<Rightarrow> 't list \<Rightarrow> ('e, 't, 's) comp"
  Model :: "'t \<Rightarrow> 't \<Rightarrow> string \<Rightarrow> ('e, 'm, 's) comp"

subsection \<open>Python's \<open>str\<close> on integers\<close>

fun digits :: "nat \<Rightarrow> string" where
  "digits n = (if n < 10 then [''0123456789'' ! n]
               else digits (n div 10) @ [''0123456789'' ! (n mod 10)])"

declare digits.simps [simp del]

definition str :: "int \<Rightarrow> string" where
  "str i = (if i < 0 then ''-'' @ digits (nat (- i)) else digits (nat i))"

subsection \<open>\<open>residual_block\<close>\<close>

text \<open>
  \<open>filters\<close> is unpacked into \<open>F1, F2\<close>; the docstring types it as a pair and every caller
  passes two elements, so it is a pair here.
\<close>

definition residual_block ::
  "('t, 'm, 's, 'e) keras \<Rightarrow> 't \<Rightarrow> nat \<times> nat \<Rightarrow> nat \<Rightarrow> int \<Rightarrow> ('e, 't, 's) comp" where
  "residual_block K X filters channels stage =
    (let X_shortcut = X;
         (F1, F2) = filters;
         conv_base_name = ''res_'' @ str stage @ ''_branch_'';
         scaling_factor = 0.3
     in
     bnd (apply_layer K (ELU 1) [X]) (\<lambda>X.
     bnd (apply_layer K (Conv2D F1 (3, 3) (1, 1) Same (Some (conv_base_name @ ''2_a''))) [X]) (\<lambda>X.
     bnd (apply_layer K (Dropout 0.2) [X]) (\<lambda>X.
     bnd (apply_layer K (ELU 1) [X]) (\<lambda>X.
     bnd (apply_layer K (Conv2D F2 (3, 3) (1, 1) Same (Some (conv_base_name @ ''2_b''))) [X]) (\<lambda>X.
     bnd (apply_layer K (Lambda_times scaling_factor) [X]) (\<lambda>X.
     bnd (apply_layer K Add [X, X_shortcut]) (\<lambda>X.
     bnd (apply_layer K (Conv2D channels (1, 1) (1, 1) Valid None) [X]) (\<lambda>X.
     ret X)))))))))"

subsection \<open>\<open>cell_detector\<close>\<close>

definition cell_detector ::
  "('t, 'm, 's, 'e) keras \<Rightarrow> nat \<times> nat \<times> nat \<Rightarrow> ('e, 'm, 's) comp" where
  "cell_detector K input_shape =
     bnd (Input K input_shape) (\<lambda>input_layer.
     bnd (apply_layer K (Conv2D 32 (3, 3) (1, 1) Same None) [input_layer]) (\<lambda>X.
     bnd (residual_block K X (32, 32) 32 1) (\<lambda>res_out_1.
     bnd (apply_layer K (Conv2D 64 (3, 3) (1, 1) Same None) [res_out_1]) (\<lambda>X.
     bnd (apply_layer K (AveragePooling2D (2, 2) Valid) [X]) (\<lambda>X.
     bnd (residual_block K X (64, 64) 64 2) (\<lambda>res_out_2.
     bnd (apply_layer K (Conv2D 128 (3, 3) (1, 1) Same None) [res_out_2]) (\<lambda>X.
     bnd (apply_layer K (AveragePooling2D (2, 2) Valid) [X]) (\<lambda>X.
     bnd (residual_block K X (128, 128) 128 3) (\<lambda>res_out_3.
     bnd (apply_layer K (Conv2D 256 (3, 3) (1, 1) Same None) [res_out_3]) (\<lambda>X.
     bnd (apply_layer K (AveragePooling2D (2, 2) Valid) [X]) (\<lambda>X.
     bnd (residual_block K X (256, 256) 256 4) (\<lambda>res_out_4.
     bnd (apply_layer K (AveragePooling2D (2, 2) Valid) [X]) (\<lambda>X.
     bnd (residual_block K X (256, 256) 256 5) (\<lambda>X.
     bnd (apply_layer K (UpSampling2D (2, 2) Bilinear) [X]) (\<lambda>X.
     bnd (apply_layer K (Concatenate (- 1)) [res_out_4, X]) (\<lambda>X.
     bnd (residual_block K X (512, 512) 256 6) (\<lambda>X.
     bnd (apply_layer K (UpSampling2D (2, 2) Bilinear) [X]) (\<lambda>X.
     bnd (apply_layer K (Concatenate (- 1)) [res_out_3, X]) (\<lambda>X.
     bnd (residual_block K X (384, 384) 128 7) (\<lambda>X.
     bnd (apply_layer K (UpSampling2D (2, 2) Bilinear) [X]) (\<lambda>X.
     bnd (apply_layer K (Concatenate (- 1)) [res_out_2, X]) (\<lambda>X.
     bnd (residual_block K X (192, 192) 64 8) (\<lambda>X.
     bnd (apply_layer K (UpSampling2D (2, 2) Bilinear) [X]) (\<lambda>X.
     bnd (apply_layer K (Concatenate (- 1)) [res_out_1, X]) (\<lambda>X.
     bnd (residual_block K X (96, 96) 32 9) (\<lambda>X.
     bnd (apply_layer K (Conv2D 1 (3, 3) (1, 1) Same None) [X]) (\<lambda>X.
     bnd (Model K input_layer X ''CellDetector'') (\<lambda>model.
     ret model))))))))))))))))))))))))))))"


section \<open>Keras 2.2 on TensorFlow 1: static shapes over a store of nodes\<close>

text \<open>
  What follows is not code of \<open>seg_n.py\<close> but the behaviour of the library it calls, as far
  as graph construction goes: every layer call computes the static shape of its output
  from the static shapes of its inputs, or raises. Data is \<open>channels_last\<close>: a shape is
  \<open>(batch, height, width, channels)\<close>, and the batch size of a Keras \<open>Input\<close> is unknown
  (\<open>None\<close>).
\<close>

type_synonym shape = "nat option \<times> nat \<times> nat \<times> nat"

datatype error =
    Negative_dimension
  | Not_broadcastable
  | Different_batch_sizes
  | Concat_mismatch
  | Merge_arity
  | Layer_arity
  | Bad_argument
  | Zero_depth
  | Graph_disconnected
  | Duplicate_name
  | Index_error

text \<open>
  The length of a convolved or pooled dimension (\<open>conv_utils.conv_output_length\<close>).
  With \<open>'valid'\<close> padding a window larger than the input is rejected by TensorFlow's shape
  inference ("Negative dimension size caused by subtracting ...").
\<close>

definition conv_output_length :: "nat \<Rightarrow> nat \<Rightarrow> padding \<Rightarrow> nat \<Rightarrow> error + nat" where
  "conv_output_length input_length filter_size pad stride =
     (if filter_size = 0 \<or> stride = 0 then Inl Bad_argument
      else case pad of
          Same \<Rightarrow> Inr ((input_length + stride - 1) div stride)
        | Valid \<Rightarrow>
            if input_length < filter_size then Inl Negative_dimension
            else Inr ((input_length - filter_size + stride) div stride))"

definition window_shape ::
  "nat \<times> nat \<Rightarrow> nat \<times> nat \<Rightarrow> padding \<Rightarrow> nat \<Rightarrow> nat \<Rightarrow> error + nat \<times> nat" where
  "window_shape win strides pad h w =
     (case conv_output_length h (fst win) pad (fst strides) of
        Inl e \<Rightarrow> Inl e
      | Inr h' \<Rightarrow>
          (case conv_output_length w (snd win) pad (snd strides) of
             Inl e \<Rightarrow> Inl e
           | Inr w' \<Rightarrow> Inr (h', w')))"

text \<open>
  Merge layers. \<open>Add\<close> broadcasts: of two dimensions one may be 1
  (\<open>_Merge._compute_elemwise_op_output_shape\<close>); known batch sizes must agree.
  \<open>Concatenate\<close> asks for equal shapes apart from the concatenation axis.
\<close>

definition broadcast_dim :: "nat \<Rightarrow> nat \<Rightarrow> error + nat" where
  "broadcast_dim i j =
     (if i = 1 then Inr j
      else if j = 1 then Inr i
      else if i \<noteq> j then Inl Not_broadcastable
      else Inr i)"

fun elemwise_op_output_shape ::
  "nat \<times> nat \<times> nat \<Rightarrow> nat \<times> nat \<times> nat \<Rightarrow> error + nat \<times> nat \<times> nat" where
  "elemwise_op_output_shape (h1, w1, c1) (h2, w2, c2) =
     (case broadcast_dim h1 h2 of
        Inl e \<Rightarrow> Inl e
      | Inr h \<Rightarrow>
          (case broadcast_dim w1 w2 of
             Inl e \<Rightarrow> Inl e
           | Inr w \<Rightarrow>
               (case broadcast_dim c1 c2 of
                  Inl e \<Rightarrow> Inl e
                | Inr c \<Rightarrow> Inr (h, w, c))))"

fun merge_all :: "nat \<times> nat \<times> nat \<Rightarrow> (nat \<times> nat \<times> nat) list \<Rightarrow> error + nat \<times> nat \<times> nat" where
  "merge_all acc [] = Inr acc"
| "merge_all acc (s # ss) =
     (case elemwise_op_output_shape acc s of
        Inl e \<Rightarrow> Inl e
      | Inr acc' \<Rightarrow> merge_all acc' ss)"

definition known_batch_sizes :: "shape list \<Rightarrow> nat list" where
  "known_batch_sizes shapes = remdups (concat (map (\<lambda>s. case fst s of None \<Rightarrow> [] | Some b \<Rightarrow> [b]) shapes))"

definition merge_shape :: "shape list \<Rightarrow> error + shape" where
  "merge_shape shapes =
     (if length shapes < 2 then Inl Merge_arity
      else if 1 < length (known_batch_sizes shapes) then Inl Different_batch_sizes
      else case merge_all (snd (hd shapes)) (map snd (tl shapes)) of
          Inl e \<Rightarrow> Inl e
        | Inr hwc \<Rightarrow>
            Inr (if length (remdups (map fst shapes)) = 1 then fst (hd shapes) else None, hwc))"

definition dims :: "shape \<Rightarrow> nat option list" where
  "dims s = (case s of (b, h, w, c) \<Rightarrow> [b, Some h, Some w, Some c])"

definition norm_axis :: "int \<Rightarrow> error + nat" where
  "norm_axis a =
     (if 0 \<le> a \<and> a < 4 then Inr (nat a)
      else if - 4 \<le> a \<and> a < 0 then Inr (nat (a + 4))
      else Inl Index_error)"

definition sum_dims :: "nat option list \<Rightarrow> nat option" where
  "sum_dims ds = (if None \<in> set ds then None else Some (sum_list (map the ds)))"

definition concat_shape :: "int \<Rightarrow> shape list \<Rightarrow> error + shape" where
  "concat_shape axis shapes =
     (if length shapes < 2 then Inl Merge_arity
      else case norm_axis axis of
          Inl e \<Rightarrow> Inl e
        | Inr k \<Rightarrow>
            if 1 < length (remdups (map (\<lambda>s. take k (dims s) @ drop (Suc k) (dims s)) shapes))
            then Inl Concat_mismatch
            else (case hd shapes of (b, h, w, c) \<Rightarrow>
              if k = 0 then Inr (sum_dims (map fst shapes), h, w, c)
              else if k = 1 then Inr (b, sum_list (map (\<lambda>s. fst (snd s)) shapes), w, c)
              else if k = 2 then Inr (b, h, sum_list (map (\<lambda>s. fst (snd (snd s))) shapes), c)
              else Inr (b, h, w, sum_list (map (\<lambda>s. snd (snd (snd s))) shapes))))"

text \<open>
  The static output shape of a layer applied to tensors of the given shapes. A convolution
  builds a kernel as deep as its input has channels; over an input without channels
  TensorFlow's shape inference rejects it ("Depth of filter must not be 0"), and it does so
  before it looks at the spatial size.
\<close>

fun compute_output_shape :: "layer \<Rightarrow> shape list \<Rightarrow> error + shape" where
  "compute_output_shape (ELU alpha) [s] = Inr s"
| "compute_output_shape (Dropout rate) [s] = Inr s"
| "compute_output_shape (Lambda_times c) [s] = Inr s"
| "compute_output_shape (Conv2D filters kernel_size strides pad name) [(b, h, w, c)] =
     (if c = 0 then Inl Zero_depth
      else case window_shape kernel_size strides pad h w of
             Inl e \<Rightarrow> Inl e
           | Inr (h', w') \<Rightarrow> Inr (b, h', w', filters))"
| "compute_output_shape (AveragePooling2D pool_size pad) [(b, h, w, c)] =
     (case window_shape pool_size pool_size pad h w of
        Inl e \<Rightarrow> Inl e
      | Inr (h', w') \<Rightarrow> Inr (b, h', w', c))"
| "compute_output_shape (UpSampling2D factor interp) [(b, h, w, c)] =
     Inr (b, fst factor * h, snd factor * w, c)"
| "compute_output_shape Add shapes = merge_shape shapes"
| "compute_output_shape (Concatenate axis) shapes = concat_shape axis shapes"
| "compute_output_shape l shapes = Inl Layer_arity"

subsection \<open>Tensors, nodes and the store\<close>

text \<open>
  A tensor is known by the identity of the node that produced it and carries its static
  shape. The store lists the nodes of the default graph, newest first; \<open>next_id\<close> is the
  identity the next node gets. \<open>stdout\<close> holds the lines printed so far.
\<close>

type_synonym tensor = "int \<times> shape"

datatype source = InputLayer | Placeholder

record node =
  node_id :: int
  made_by :: "source + layer"
  inbound :: "int list"
  out_shape :: shape

record world =
  graph :: "node list"
  next_id :: int
  stdout :: "string list"

definition new_node :: "source + layer \<Rightarrow> int list \<Rightarrow> shape \<Rightarrow> (error, tensor, world) comp" where
  "new_node origin ins s w =
     (Inr (next_id w, s),
      w\<lparr>graph := \<lparr>node_id = next_id w, made_by = origin, inbound = ins, out_shape = s\<rparr> # graph w,
        next_id := next_id w + 1\<rparr>)"

definition keras_Input :: "nat \<times> nat \<times> nat \<Rightarrow> (error, tensor, world) comp" where
  "keras_Input input_shape = new_node (Inl InputLayer) [] (None, input_shape)"

definition keras_apply_layer :: "layer \<Rightarrow> tensor list \<Rightarrow> (error, tensor, world) comp" where
  "keras_apply_layer l xs w =
     (case compute_output_shape l (map snd xs) of
        Inl e \<Rightarrow> (Inl e, w)
      | Inr s \<Rightarrow> new_node (Inr l) (map fst xs) s w)"

text \<open>
  \<open>Model(inputs, outputs, name)\<close> walks the graph back from the output. It collects the
  nodes the output depends on, refuses a graph that reaches a source other than the
  given input, and refuses two layers of the same explicit name.
\<close>

fun ancestors :: "node list \<Rightarrow> int list \<Rightarrow> int list" where
  "ancestors [] need = need"
| "ancestors (n # ns) need =
     ancestors ns (if node_id n \<in> set need then inbound n @ need else need)"

definition layer_name :: "node \<Rightarrow> string option" where
  "layer_name n = (case made_by n of Inr (Conv2D f k s p name) \<Rightarrow> name | _ \<Rightarrow> None)"

record model =
  m_input :: tensor
  m_output :: tensor
  m_name :: string
  m_nodes :: "node list"

definition build_model :: "tensor \<Rightarrow> tensor \<Rightarrow> string \<Rightarrow> node list \<Rightarrow> error + model" where
  "build_model i out name g =
     (let need = ancestors g [fst out];
          ns = filter (\<lambda>n. node_id n \<in> set need) (rev g);
          names = List.map_filter layer_name ns
      in if \<exists>n \<in> set ns. inbound n = [] \<and> node_id n \<noteq> fst i then Inl Graph_disconnected
         else if fst out \<notin> node_id ` set ns then Inl Graph_disconnected
         else if \<not> distinct names then Inl Duplicate_name
         else Inr \<lparr>m_input = i, m_output = out, m_name = name, m_nodes = ns\<rparr>)"

definition keras_Model :: "tensor \<Rightarrow> tensor \<Rightarrow> string \<Rightarrow> (error, model, world) comp" where
  "keras_Model i out name w = (build_model i out name (graph w), w)"

definition keras2 :: "(tensor, model, world, error) keras" where
  "keras2 = \<lparr>Input = keras_Input, apply_layer = keras_apply_layer, Model = keras_Model\<rparr>"

definition world0 :: world where
  "world0 = \<lparr>graph = [], next_id = 0, stdout = []\<rparr>"

subsection \<open>Naming the nodes a run adds\<close>

text \<open>
  Notation for stating what a run leaves in the store. \<open>off i k\<close> is the identity \<open>k\<close>
  steps after \<open>i\<close>; \<open>grow ns w\<close> is the world \<open>w\<close> after the nodes \<open>ns\<close> (newest first) were
  added; \<open>wf_world\<close> says that the identities in the store are older than the next one;
  \<open>lookup\<close> finds a node by identity.
\<close>

definition off :: "int \<Rightarrow> int \<Rightarrow> int" where
  "off i k = i + k"

definition mk :: "int \<Rightarrow> layer \<Rightarrow> int list \<Rightarrow> shape \<Rightarrow> node" where
  "mk i l ins s = \<lparr>node_id = i, made_by = Inr l, inbound = ins, out_shape = s\<rparr>"

definition input_node :: "int \<Rightarrow> nat \<times> nat \<times> nat \<Rightarrow> node" where
  "input_node i sh = \<lparr>node_id = i, made_by = Inl InputLayer, inbound = [], out_shape = (None, sh)\<rparr>"

definition grow :: "node list \<Rightarrow> world \<Rightarrow> world" where
  "grow ns w = w\<lparr>graph := ns @ graph w, next_id := next_id w + int (length ns)\<rparr>"

definition wf_world :: "world \<Rightarrow> bool" where
  "wf_world w = (\<forall>n \<in> set (graph w). node_id n < next_id w)"


text \<open>
  \<open>all_needed ns need\<close>: walking the nodes \<open>ns\<close> newest first, every node is wanted, by
  \<open>need\<close> or by a node met before it.
\<close>

fun all_needed :: "node list \<Rightarrow> int list \<Rightarrow> bool" where
  "all_needed [] need = True"
| "all_needed (n # ns) need = (node_id n \<in> set need \<and> all_needed ns (inbound n @ need))"

text \<open>
  The eight nodes of a residual block whose first node has identity \<open>i\<close>, applied to the
  tensor \<open>x\<close> of shape \<open>(b, h, w, c)\<close>, newest first; then the ninety nodes of the whole
  network on an input of \<open>16 * p\<close> by \<open>16 * q\<close> pixels. That the code builds exactly these
  is proved below (\<open>residual_block_run\<close>, \<open>cell_detector_run\<close>).
\<close>

definition rb_nodes :: "int \<Rightarrow> int \<Rightarrow> shape \<Rightarrow> nat \<times> nat \<Rightarrow> nat \<Rightarrow> int \<Rightarrow> node list" where
  "rb_nodes i x s filters ch st =
     (case s of (b, h, w, c) \<Rightarrow>
        [mk (off i 7) (Conv2D ch (1, 1) (1, 1) Valid None) [off i 6] (b, h, w, ch),
         mk (off i 6) Add [off i 5, x] (b, h, w, if snd filters = 1 then c else snd filters),
         mk (off i 5) (Lambda_times 0.3) [off i 4] (b, h, w, snd filters),
         mk (off i 4) (Conv2D (snd filters) (3, 3) (1, 1) Same
                         (Some (''res_'' @ str st @ ''_branch_2_b''))) [off i 3] (b, h, w, snd filters),
         mk (off i 3) (ELU 1) [off i 2] (b, h, w, fst filters),
         mk (off i 2) (Dropout 0.2) [off i 1] (b, h, w, fst filters),
         mk (off i 1) (Conv2D (fst filters) (3, 3) (1, 1) Same
                         (Some (''res_'' @ str st @ ''_branch_2_a''))) [off i 0] (b, h, w, fst filters),
         mk (off i 0) (ELU 1) [x] (b, h, w, c)])"

definition cd_nodes :: "int \<Rightarrow> nat \<Rightarrow> nat \<Rightarrow> nat \<Rightarrow> node list" where
  "cd_nodes i p q C =
     [mk (off i 89) (Conv2D 1 (3, 3) (1, 1) Same None) [off i 88] (None, 16 * p, 16 * q, 1)] @
     rb_nodes (off i 81) (off i 80) (None, 16 * p, 16 * q, 96) (96, 96) 32 9 @
     [mk (off i 80) (Concatenate (- 1)) [off i 9, off i 79] (None, 16 * p, 16 * q, 96),
      mk (off i 79) (UpSampling2D (2, 2) Bilinear) [off i 78] (None, 16 * p, 16 * q, 64)] @
     rb_nodes (off i 71) (off i 70) (None, 8 * p, 8 * q, 192) (192, 192) 64 8 @
     [mk (off i 70) (Concatenate (- 1)) [off i 19, off i 69] (None, 8 * p, 8 * q, 192),
      mk (off i 69) (UpSampling2D (2, 2) Bilinear) [off i 68] (None, 8 * p, 8 * q, 128)] @
     rb_nodes (off i 61) (off i 60) (None, 4 * p, 4 * q, 384) (384, 384) 128 7 @
     [mk (off i 60) (Concatenate (- 1)) [off i 29, off i 59] (None, 4 * p, 4 * q, 384),
      mk (off i 59) (UpSampling2D (2, 2) Bilinear) [off i 58] (None, 4 * p, 4 * q, 256)] @
     rb_nodes (off i 51) (off i 50) (None, 2 * p, 2 * q, 512) (512, 512) 256 6 @
     [mk (off i 50) (Concatenate (- 1)) [off i 39, off i 49] (None, 2 * p, 2 * q, 512),
      mk (off i 49) (UpSampling2D (2, 2) Bilinear) [off i 48] (None, 2 * p, 2 * q, 256)] @
     rb_nodes (off i 41) (off i 40) (None, p, q, 256) (256, 256) 256 5 @
     [mk (off i 40) (AveragePooling2D (2, 2) Valid) [off i 31] (None, p, q, 256)] @
     rb_nodes (off i 32) (off i 31) (None, 2 * p, 2 * q, 256) (256, 256) 256 4 @
     [mk (off i 31) (AveragePooling2D (2, 2) Valid) [off i 30] (None, 2 * p, 2 * q, 256),
      mk (off i 30) (Conv2D 256 (3, 3) (1, 1) Same None) [off i 29] (None, 4 * p, 4 * q, 256)] @
     rb_nodes (off i 22) (off i 21) (None, 4 * p, 4 * q, 128) (128, 128) 128 3 @
     [mk (off i 21) (AveragePooling2D (2, 2) Valid) [off i 20] (None, 4 * p, 4 * q, 128),
      mk (off i 20) (Conv2D 128 (3, 3) (1, 1) Same None) [off i 19] (None, 8 * p, 8 * q, 128)] @
     rb_nodes (off i 12) (off i 11) (None, 8 * p, 8 * q, 64) (64, 64) 64 2 @
     [mk (off i 11) (AveragePooling2D (2, 2) Valid) [off i 10] (None, 8 * p, 8 * q, 64),
      mk (off i 10) (Conv2D 64 (3, 3) (1, 1) Same None) [off i 9] (None, 16 * p, 16 * q, 64)] @
     rb_nodes (off i 2) (off i 1) (None, 16 * p, 16 * q, 32) (32, 32) 32 1 @
     [mk (off i 1) (Conv2D 32 (3, 3) (1, 1) Same None) [off i 0] (None, 16 * p, 16 * q, 32),
      input_node (off i 0) (16 * p, 16 * q, C)]"

text \<open>\<open>bnd_k f r\<close> continues with \<open>f\<close> after the outcome \<open>r\<close>: \<open>bnd m f s = bnd_k f (m s)\<close>.\<close>

definition bnd_k :: "('a \<Rightarrow> ('e, 'b, 's) comp) \<Rightarrow> ('e + 'a) \<times> 's \<Rightarrow> ('e + 'b) \<times> 's" where
  "bnd_k f r = (case r of (Inl e, s') \<Rightarrow> (Inl e, s') | (Inr a, s') \<Rightarrow> f a s')"

text \<open>The length of a dimension after one 2x2 pooling with \<open>'valid'\<close> padding.\<close>

definition halved :: "nat \<Rightarrow> nat" where
  "halved n = n div 2"

subsection \<open>Relating two runs\<close>

text \<open>
  \<open>rel_comp S Q m1 m2\<close>: from states related by \<open>S\<close>, the outcomes of \<open>m1\<close> and \<open>m2\<close> are
  related by \<open>Q\<close> and the states they leave by \<open>S\<close>. \<open>lock V E\<close> relates two outcomes that
  are both values, related by \<open>V\<close>, or both exceptions, related by \<open>E\<close>.
\<close>

definition rel_comp ::
  "('s1 \<Rightarrow> 's2 \<Rightarrow> bool) \<Rightarrow> ('e1 + 'a1 \<Rightarrow> 'e2 + 'a2 \<Rightarrow> bool) \<Rightarrow>
   ('e1, 'a1, 's1) comp \<Rightarrow> ('e2, 'a2, 's2) comp \<Rightarrow> bool" where
  "rel_comp S Q m1 m2 =
     (\<forall>s1 s2. S s1 s2 \<longrightarrow> Q (fst (m1 s1)) (fst (m2 s2)) \<and> S (snd (m1 s1)) (snd (m2 s2)))"

definition lock ::
  "('a1 \<Rightarrow> 'a2 \<Rightarrow> bool) \<Rightarrow> ('e1 \<Rightarrow> 'e2 \<Rightarrow> bool) \<Rightarrow> 'e1 + 'a1 \<Rightarrow> 'e2 + 'a2 \<Rightarrow> bool" where
  "lock V E r1 r2 =
     (case r1 of
        Inl e1 \<Rightarrow> (case r2 of Inl e2 \<Rightarrow> E e1 e2 | Inr a2 \<Rightarrow> False)
      | Inr a1 \<Rightarrow> (case r2 of Inl e2 \<Rightarrow> False | Inr a2 \<Rightarrow> V a1 a2))"

text \<open>
  The shape rules alone: a tensor is its static shape, there is no state, and \<open>Model\<close>
  returns the shape of its output.
\<close>

definition keras_shapes :: "(shape, shape, unit, error) keras" where
  "keras_shapes =
     \<lparr>Input = (\<lambda>sh. ret (None, sh)),
      apply_layer = (\<lambda>l xs u. (compute_output_shape l xs, u)),
      Model = (\<lambda>i out name. ret out)\<rparr>"

text \<open>
  \<open>tf.placeholder(dtype, shape)\<close> adds a source node of the given static shape to the
  graph. \<open>chans\<close> and \<open>spatial\<close> read a shape.
\<close>

definition tf_placeholder :: "shape \<Rightarrow> (error, tensor, world) comp" where
  "tf_placeholder s = new_node (Inl Placeholder) [] s"

definition chans :: "shape \<Rightarrow> nat" where
  "chans s = snd (snd (snd s))"

definition spatial :: "shape \<Rightarrow> nat \<times> nat" where
  "spatial s = (fst (snd s), fst (snd (snd s)))"

subsection \<open>What a graph computes\<close>

text \<open>
  The value of a tensor, over any vector space of values. \<open>Add\<close> sums its inputs and
  \<open>Lambda_times c\<close> multiplies by \<open>c\<close>, as the layers do elementwise; every other layer
  is a function of its input given by the interpretation \<open>U\<close>, which also takes the
  identity of the node, since each layer instance has weights of its own; \<open>cat\<close>
  interprets \<open>Concatenate\<close>. A tensor that no node of the store produces, and a source,
  has the value fed for it.
\<close>

fun layer_value ::
  "(layer \<Rightarrow> 'v \<Rightarrow> 'v) \<Rightarrow> ('v list \<Rightarrow> 'v) \<Rightarrow> layer \<Rightarrow> 'v list \<Rightarrow> 'v::real_vector" where
  "layer_value U cat Add vs = sum_list vs"
| "layer_value U cat (Lambda_times c) vs = sum_list (map (\<lambda>v. of_rat c *\<^sub>R v) vs)"
| "layer_value U cat (Concatenate ax) vs = cat vs"
| "layer_value U cat l vs = U l (sum_list vs)"

fun node_value ::
  "(int \<Rightarrow> layer \<Rightarrow> 'v \<Rightarrow> 'v) \<Rightarrow> ('v list \<Rightarrow> 'v) \<Rightarrow> node list \<Rightarrow> (int \<Rightarrow> 'v) \<Rightarrow> int \<Rightarrow>
   'v::real_vector" where
  "node_value U cat [] feed j = feed j"
| "node_value U cat (n # ns) feed j =
     (if node_id n = j
      then (case made_by n of
              Inl src \<Rightarrow> feed j
            | Inr l \<Rightarrow> layer_value (U j) cat l (map (node_value U cat ns feed) (inbound n)))
      else node_value U cat ns feed j)"

text \<open>
  An interpretation over the reals used to tell graphs apart: every convolution has zero
  kernel and bias, every other layer is the identity (as ELU is on positive values, and
  dropout outside training); and the feed that gives every source the same value.
\<close>

definition zero_convs :: "int \<Rightarrow> layer \<Rightarrow> real \<Rightarrow> real" where
  "zero_convs j l v = (case l of Conv2D f k s p name \<Rightarrow> 0 | _ \<Rightarrow> v)"

definition feed_all :: "'v \<Rightarrow> int \<Rightarrow> 'v" where
  "feed_all v j = v"

subsection \<open>Reading the topology of a model\<close>




subsection \<open>Comparing two models\<close>

text \<open>
  \<open>shift_node d n\<close> is the node \<open>n\<close> with every identity in it moved by \<open>d\<close>. Two models
  have the same structure when the second is the first with all identities moved by one
  distance: node by node the same layer with the same parameters and name, the same
  output shape and the same wiring.
\<close>

definition shift_node :: "int \<Rightarrow> node \<Rightarrow> node" where
  "shift_node d n = n\<lparr>node_id := node_id n + d, inbound := map (\<lambda>j. j + d) (inbound n)\<rparr>"

definition same_structure :: "model \<Rightarrow> model \<Rightarrow> bool" where
  "same_structure m1 m2 =
     (let d = fst (m_input m2) - fst (m_input m1)
      in m_nodes m2 = map (shift_node d) (m_nodes m1) \<and>
         snd (m_input m2) = snd (m_input m1) \<and>
         m_output m2 = (fst (m_output m1) + d, snd (m_output m1)) \<and>
         m_name m2 = m_name m1)"

section \<open>The smoke test\<close>

text \<open>
  The block under \<open>if __name__ == '__main__'\<close> calls, besides Keras, into TensorFlow, NumPy
  and \<open>print\<close>. These calls are the second interface: \<open>print s\<close>;
  \<open>tf.reset_default_graph()\<close>; \<open>Session\<close> for entering \<open>with tf.Session() as test\<close>;
  \<open>seed n\<close> for \<open>np.random.seed(n)\<close>; \<open>placeholder shape\<close> for
  \<open>tf.placeholder('float', shape)\<close>; \<open>randn shape\<close> for \<open>np.random.randn\<close>;
  \<open>call_model model x\<close> for \<open>model(x)\<close>; \<open>run_init\<close> for
  \<open>test.run(tf.global_variables_initializer())\<close>; \<open>run a x v\<close> for
  \<open>test.run([a], feed_dict={x: v, K.learning_phase(): 0})\<close>; and \<open>entry out\<close> for
  \<open>str(out[0][1][1][0])\<close>. The two tests are the two halves of \<open>main\<close>.
\<close>

record ('t, 'm, 's, 'e, 'a) runtime =
  print :: "string \<Rightarrow> ('e, unit, 's) comp"
  reset_default_graph :: "('e, unit, 's) comp"
  Session :: "('e, unit, 's) comp"
  seed :: "nat \<Rightarrow> ('e, unit, 's) comp"
  placeholder :: "shape \<Rightarrow> ('e, 't, 's) comp"
  randn :: "shape \<Rightarrow> ('e, 'a, 's) comp"
  call_model :: "'m \<Rightarrow> 't \<Rightarrow> ('e, 't, 's) comp"
  run_init :: "('e, unit, 's) comp"
  run :: "'t \<Rightarrow> 't \<Rightarrow> 'a \<Rightarrow> ('e, 'a list, 's) comp"
  entry :: "'a list \<Rightarrow> ('e, string, 's) comp"


subsection \<open>Watching the calls of a run\<close>







section \<open>Running the code on the Keras model\<close>

subsection \<open>Evaluation rules\<close>

lemma str_stage:
  "str 1 = ''1''" "str 2 = ''2''" "str 3 = ''3''" "str 4 = ''4''" "str 5 = ''5''"
  "str 6 = ''6''" "str 7 = ''7''" "str 8 = ''8''" "str 9 = ''9''"
  by (simp_all add: str_def digits.simps)

lemma bnd_apply:
  "bnd m f s = (case m s of (Inl e, s') \<Rightarrow> (Inl e, s') | (Inr a, s') \<Rightarrow> f a s')"
  by (simp add: bnd_def)

lemma ret_apply: "ret a s = (Inr a, s)"
  by (simp add: ret_def)

lemma keras2_sel:
  "Input keras2 = keras_Input" "apply_layer keras2 = keras_apply_layer" "Model keras2 = keras_Model"
  by (simp_all add: keras2_def)

lemma off_simps:
  "off i 0 = i"
  "off i k + 1 = off i (k + 1)"
  "off (off i a) b = off i (a + b)"
  "(off i a = off i b) = (a = b)"
  "(off i a = i) = (a = 0)"
  "(i = off i a) = (a = 0)"
  "(i \<le> off i a) = (0 \<le> a)"
  by (simp_all add: off_def)

lemma keras_apply_layer_run:
  "keras_apply_layer l xs w =
     (case compute_output_shape l (map snd xs) of
        Inl e \<Rightarrow> (Inl e, w)
      | Inr s \<Rightarrow> (Inr (next_id w, s), grow [mk (next_id w) l (map fst xs) s] w))"
  by (simp add: keras_apply_layer_def new_node_def mk_def grow_def split: sum.splits)

lemma keras_Input_run:
  "keras_Input sh w = (Inr (next_id w, (None, sh)), grow [input_node (next_id w) sh] w)"
  by (simp add: keras_Input_def new_node_def grow_def input_node_def)

lemma grow_grow: "grow ns (grow ms w) = grow (ns @ ms) w"
  by (simp add: grow_def)

lemma next_id_grow:
  "next_id (grow [] w) = next_id w"
  "next_id (grow (n # ns) w) = next_id (grow ns w) + 1"
  "next_id w + 1 = off (next_id w) 1"
  by (simp_all add: grow_def off_def)

lemma graph_grow: "graph (grow ns w) = ns @ graph w"
  by (simp add: grow_def)

lemma pool_length:
  "conv_output_length n 2 Valid 2 = (if n < 2 then Inl Negative_dimension else Inr (n div 2))"
proof -
  have "\<not> n < 2 \<Longrightarrow> (n - 2 + 2) div 2 = n div 2" by simp
  then show ?thesis
    unfolding conv_output_length_def by (simp del: div_add_self2 div_add_self1)
qed

lemma shape_conv_same:
  "compute_output_shape (Conv2D f (3, 3) (Suc 0, Suc 0) Same nm) [(b, h, w, c)] =
     (if c = 0 then Inl Zero_depth else Inr (b, h, w, f))"
  by (simp add: window_shape_def conv_output_length_def)

lemma shape_conv_1x1:
  "compute_output_shape (Conv2D f (Suc 0, Suc 0) (Suc 0, Suc 0) Valid nm) [(b, h, w, c)] =
     (if c = 0 then Inl Zero_depth
      else if h = 0 \<or> w = 0 then Inl Negative_dimension else Inr (b, h, w, f))"
  by (simp add: window_shape_def conv_output_length_def)

lemma shape_pool:
  "compute_output_shape (AveragePooling2D (2, 2) Valid) [(b, h, w, c)] =
     (if h < 2 then Inl Negative_dimension
      else if w < 2 then Inl Negative_dimension
      else Inr (b, h div 2, w div 2, c))"
  by (simp add: window_shape_def pool_length)

lemma shape_up:
  "compute_output_shape (UpSampling2D (2, 2) ip) [(b, h, w, c)] = Inr (b, 2 * h, 2 * w, c)"
  by simp

lemma shape_concat:
  "compute_output_shape (Concatenate (- 1)) [(b, h, w, c), (b', h', w', c')] =
     (if b = b' \<and> h = h' \<and> w = w' then Inr (b, h, w, c + c') else Inl Concat_mismatch)"
  by (simp add: concat_shape_def norm_axis_def dims_def)

lemma shape_add:
  "compute_output_shape Add [(b, h, w, c2), (b, h, w, c)] =
     (case broadcast_dim c2 c of Inl e \<Rightarrow> Inl e | Inr c' \<Rightarrow> Inr (b, h, w, c'))"
  by (cases b) (simp_all add: merge_shape_def known_batch_sizes_def broadcast_dim_def)

lemma shape_pointwise:
  "compute_output_shape (ELU a) [s] = Inr s"
  "compute_output_shape (Dropout r) [s] = Inr s"
  "compute_output_shape (Lambda_times k) [s] = Inr s"
  by simp_all

lemma broadcast_dim_Inr:
  "broadcast_dim i j = Inr k \<Longrightarrow> k = (if i = 1 then j else i)"
  by (auto simp add: broadcast_dim_def split: if_splits)

subsection \<open>What \<open>residual_block\<close> does on the Keras model\<close>

lemma residual_block_run:
  "residual_block keras2 (x, (b, h, wd, c)) (F1, F2) ch st w =
     (let ns = rb_nodes (next_id w) x (b, h, wd, c) (F1, F2) ch st
      in if c = 0 then (Inl Zero_depth, grow (drop 7 ns) w)
         else if F1 = 0 then (Inl Zero_depth, grow (drop 4 ns) w)
         else case broadcast_dim F2 c of
                Inl e \<Rightarrow> (Inl e, grow (drop 2 ns) w)
              | Inr c' \<Rightarrow>
                 if c' = 0 then (Inl Zero_depth, grow (drop 1 ns) w)
                 else if h = 0 \<or> wd = 0 then (Inl Negative_dimension, grow (drop 1 ns) w)
                 else (Inr (off (next_id w) 7, (b, h, wd, ch)), grow ns w))"
proof (cases "c = 0 \<or> F1 = 0")
  case True
  then show ?thesis
    by (auto simp add: residual_block_def Let_def bnd_apply ret_apply keras2_sel
        keras_apply_layer_run grow_grow next_id_grow off_simps shape_pointwise shape_conv_same
        rb_nodes_def
        simp del: compute_output_shape.simps cong: prod.case_cong_weak)
next
  case False
  then have pos: "c \<noteq> 0" "F1 \<noteq> 0"
    by simp_all
  show ?thesis
  proof (cases "broadcast_dim F2 c")
    case (Inl e)
    then show ?thesis
      using pos
      by (simp add: residual_block_def Let_def bnd_apply ret_apply keras2_sel
          keras_apply_layer_run grow_grow next_id_grow off_simps shape_pointwise shape_conv_same
          shape_add rb_nodes_def
          del: compute_output_shape.simps cong: prod.case_cong_weak)
  next
    case (Inr c')
    then show ?thesis
      using broadcast_dim_Inr [OF Inr] pos
      by (simp add: residual_block_def Let_def bnd_apply ret_apply keras2_sel
          keras_apply_layer_run grow_grow next_id_grow off_simps shape_pointwise shape_conv_same
          shape_conv_1x1 shape_add rb_nodes_def
          del: compute_output_shape.simps cong: prod.case_cong_weak)
  qed
qed

subsection \<open>\<open>Model\<close> looks only at the nodes its output depends on\<close>

lemma ancestors_append: "ancestors (xs @ ys) need = ancestors ys (ancestors xs need)"
  by (induction xs arbitrary: need) simp_all

lemma ancestors_unrelated:
  "\<forall>n \<in> set g. node_id n \<notin> set need \<Longrightarrow> ancestors g need = need"
  by (induction g arbitrary: need) simp_all

lemma ancestors_bound:
  "\<forall>j \<in> set need. k \<le> j \<Longrightarrow> \<forall>n \<in> set g. \<forall>j \<in> set (inbound n). k \<le> j \<Longrightarrow>
   \<forall>j \<in> set (ancestors g need). k \<le> j"
proof (induction g arbitrary: need)
  case Nil
  then show ?case by simp
next
  case (Cons a g)
  have "\<forall>j \<in> set (if node_id a \<in> set need then inbound a @ need else need). k \<le> j"
    using Cons.prems by auto
  moreover have "\<forall>n \<in> set g. \<forall>j \<in> set (inbound n). k \<le> j"
    using Cons.prems by simp
  ultimately show ?case
    using Cons.IH by simp
qed

lemma build_model_grow:
  assumes wf: "wf_world w"
    and out: "next_id w \<le> fst out"
    and ins: "\<forall>n \<in> set ns. \<forall>j \<in> set (inbound n). next_id w \<le> j"
  shows "build_model i out name (ns @ graph w) = build_model i out name ns"
proof -
  let ?need = "ancestors ns [fst out]"
  have bound: "\<forall>j \<in> set ?need. next_id w \<le> j"
    by (rule ancestors_bound) (use out ins in auto)
  have old: "\<forall>n \<in> set (graph w). node_id n \<notin> set ?need"
    using wf bound unfolding wf_world_def by fastforce
  have anc: "ancestors (ns @ graph w) [fst out] = ?need"
    by (simp add: ancestors_append ancestors_unrelated [OF old])
  have "filter (\<lambda>n. node_id n \<in> set ?need) (rev (graph w)) = []"
    using old by (simp add: filter_empty_conv)
  then have "filter (\<lambda>n. node_id n \<in> set ?need) (rev (ns @ graph w)) =
      filter (\<lambda>n. node_id n \<in> set ?need) (rev ns)"
    by simp
  then show ?thesis
    unfolding build_model_def anc Let_def by (simp only:)
qed

text \<open>A graph all of whose nodes feed the output, newest first, is kept whole.\<close>

lemma node_sel:
  "node_id (mk i l ins s) = i" "inbound (mk i l ins s) = ins" "out_shape (mk i l ins s) = s"
  "made_by (mk i l ins s) = Inr l"
  "node_id (input_node i sh) = i" "inbound (input_node i sh) = []"
  "out_shape (input_node i sh) = (None, sh)" "made_by (input_node i sh) = Inl InputLayer"
  by (simp_all add: mk_def input_node_def)

lemma layer_name_sel:
  "layer_name (mk i (Conv2D f k st pd nm) ins s) = nm"
  "layer_name (mk i (ELU a) ins s) = None"
  "layer_name (mk i (Dropout r) ins s) = None"
  "layer_name (mk i (Lambda_times c) ins s) = None"
  "layer_name (mk i Add ins s) = None"
  "layer_name (mk i (AveragePooling2D ps pd) ins s) = None"
  "layer_name (mk i (UpSampling2D sz ip) ins s) = None"
  "layer_name (mk i (Concatenate ax) ins s) = None"
  "layer_name (input_node i sh) = None"
  by (simp_all add: layer_name_def mk_def input_node_def)

lemma ancestors_mono: "set need \<subseteq> set (ancestors g need)"
proof (induction g arbitrary: need)
  case Nil
  then show ?case by simp
next
  case (Cons a g)
  have "set need \<subseteq> set (if node_id a \<in> set need then inbound a @ need else need)"
    by auto
  also have "\<dots> \<subseteq> set (ancestors g (if node_id a \<in> set need then inbound a @ need else need))"
    by (rule Cons.IH)
  finally show ?case by simp
qed

lemma all_needed_ancestors:
  "all_needed ns need \<Longrightarrow> node_id ` set ns \<subseteq> set (ancestors ns need)"
proof (induction ns arbitrary: need)
  case Nil
  then show ?case by simp
next
  case (Cons n ns)
  then have n: "node_id n \<in> set need" and rest: "all_needed ns (inbound n @ need)"
    by simp_all
  have "node_id n \<in> set (ancestors ns (inbound n @ need))"
    using n ancestors_mono [of "inbound n @ need" ns] by auto
  moreover have "node_id ` set ns \<subseteq> set (ancestors ns (inbound n @ need))"
    by (rule Cons.IH [OF rest])
  ultimately show ?case
    using n by simp
qed

lemma map_filter_rev: "List.map_filter f (rev xs) = rev (List.map_filter f xs)"
  by (simp add: List.map_filter_def rev_map rev_filter)

lemma build_model_whole:
  assumes need: "all_needed ns [fst out]"
    and src: "\<forall>n \<in> set ns. inbound n = [] \<longrightarrow> node_id n = fst i"
    and out: "fst out \<in> node_id ` set ns"
    and names: "distinct (List.map_filter layer_name ns)"
  shows "build_model i out name ns =
           Inr \<lparr>m_input = i, m_output = out, m_name = name, m_nodes = rev ns\<rparr>"
proof -
  have "\<forall>n \<in> set (rev ns). node_id n \<in> set (ancestors ns [fst out])"
    using all_needed_ancestors [OF need] by auto
  then have keep: "filter (\<lambda>n. node_id n \<in> set (ancestors ns [fst out])) (rev ns) = rev ns"
    by (simp only: filter_True)
  show ?thesis
    unfolding build_model_def Let_def keep
    using src out names by (simp add: map_filter_rev)
qed

lemma cd_nodes_model:
  "build_model (i, s0) (off i 89, s1) nm (cd_nodes i p q C) =
     Inr \<lparr>m_input = (i, s0), m_output = (off i 89, s1), m_name = nm,
          m_nodes = rev (cd_nodes i p q C)\<rparr>"
proof (rule build_model_whole)
  show "all_needed (cd_nodes i p q C) [fst (off i 89, s1)]"
    by (simp add: cd_nodes_def rb_nodes_def node_sel off_simps)
  show "\<forall>n \<in> set (cd_nodes i p q C). inbound n = [] \<longrightarrow> node_id n = fst (i, s0)"
    by (simp add: cd_nodes_def rb_nodes_def node_sel off_simps)
  show "fst (off i 89, s1) \<in> node_id ` set (cd_nodes i p q C)"
    by (simp add: cd_nodes_def node_sel)
  show "distinct (List.map_filter layer_name (cd_nodes i p q C))"
    by (simp add: cd_nodes_def rb_nodes_def layer_name_sel List.map_filter_simps str_stage)
qed

subsection \<open>What \<open>cell_detector\<close> does on the Keras model\<close>

lemmas run_rules =
  bnd_apply ret_apply keras2_sel keras_apply_layer_run keras_Input_run residual_block_run Let_def
  grow_grow next_id_grow off_simps shape_pointwise shape_conv_same shape_conv_1x1 shape_pool
  shape_up shape_concat broadcast_dim_def

lemma cell_detector_layers:
  assumes "0 < p" "0 < q" "0 < C"
  shows "cell_detector keras2 (16 * p, 16 * q, C) w =
     bnd (keras_Model (next_id w, (None, 16 * p, 16 * q, C))
            (off (next_id w) 89, (None, 16 * p, 16 * q, 1)) ''CellDetector'') ret
       (grow (cd_nodes (next_id w) p q C) w)"
  using assms
  by (simp add: cell_detector_def run_rules cd_nodes_def rb_nodes_def
      del: compute_output_shape.simps cong: prod.case_cong_weak)

lemma cd_nodes_inbound:
  "\<forall>n \<in> set (cd_nodes i p q C). \<forall>j \<in> set (inbound n). i \<le> j"
  by (simp add: cd_nodes_def rb_nodes_def node_sel off_simps)

lemma cell_detector_run:
  assumes "0 < p" "0 < q" "0 < C" "wf_world w"
  shows "cell_detector keras2 (16 * p, 16 * q, C) w =
     (Inr \<lparr>m_input = (next_id w, (None, 16 * p, 16 * q, C)),
           m_output = (off (next_id w) 89, (None, 16 * p, 16 * q, 1)),
           m_name = ''CellDetector'',
           m_nodes = rev (cd_nodes (next_id w) p q C)\<rparr>,
      grow (cd_nodes (next_id w) p q C) w)"
proof -
  have "build_model (next_id w, (None, 16 * p, 16 * q, C))
          (off (next_id w) 89, (None, 16 * p, 16 * q, 1)) ''CellDetector''
          (cd_nodes (next_id w) p q C @ graph w) =
        build_model (next_id w, (None, 16 * p, 16 * q, C))
          (off (next_id w) 89, (None, 16 * p, 16 * q, 1)) ''CellDetector''
          (cd_nodes (next_id w) p q C)"
    by (rule build_model_grow [OF assms(4)]) (simp_all add: off_simps cd_nodes_inbound)
  then show ?thesis
    unfolding cell_detector_layers [OF assms(1,2,3)]
    by (simp add: bnd_apply ret_apply keras_Model_def graph_grow cd_nodes_model)
qed

section \<open>Two runs of the same code\<close>

lemma rel_bnd:
  assumes m: "rel_comp S (lock V E) m1 m2"
    and f: "\<And>a b. V a b \<Longrightarrow> rel_comp S Q (f1 a) (f2 b)"
    and e: "\<And>e1 e2. E e1 e2 \<Longrightarrow> Q (Inl e1) (Inl e2)"
  shows "rel_comp S Q (bnd m1 f1) (bnd m2 f2)"
  unfolding rel_comp_def
proof (intro allI impI)
  fix s1 s2
  assume S: "S s1 s2"
  obtain r1 t1 where r1: "m1 s1 = (r1, t1)" by (cases "m1 s1")
  obtain r2 t2 where r2: "m2 s2 = (r2, t2)" by (cases "m2 s2")
  from m S r1 r2 have l: "lock V E r1 r2" and t: "S t1 t2"
    unfolding rel_comp_def by (metis fst_conv, metis snd_conv)
  show "Q (fst (bnd m1 f1 s1)) (fst (bnd m2 f2 s2)) \<and> S (snd (bnd m1 f1 s1)) (snd (bnd m2 f2 s2))"
  proof (cases r1)
    case (Inl e1)
    with l obtain e2 where "r2 = Inl e2" "E e1 e2"
      by (auto simp add: lock_def split: sum.splits)
    with Inl r1 r2 t e show ?thesis
      by (simp add: bnd_def)
  next
    case (Inr a)
    with l obtain b where b: "r2 = Inr b" "V a b"
      by (auto simp add: lock_def split: sum.splits)
    from f [OF b(2)] t have "Q (fst (f1 a t1)) (fst (f2 b t2)) \<and> S (snd (f1 a t1)) (snd (f2 b t2))"
      unfolding rel_comp_def by blast
    with Inr b r1 r2 show ?thesis
      by (simp add: bnd_def)
  qed
qed

lemma rel_ret: "V a b \<Longrightarrow> rel_comp S (lock V E) (ret a) (ret b)"
  by (simp add: rel_comp_def ret_def lock_def)

lemma lock_Inl: "E e1 e2 \<Longrightarrow> lock V E (Inl e1) (Inl e2)"
  by (simp add: lock_def)

lemma residual_block_rel:
  assumes app: "\<And>l xs ys. list_all2 T xs ys \<Longrightarrow>
      rel_comp S (lock T E) (apply_layer K1 l xs) (apply_layer K2 l ys)"
    and X: "T X1 X2"
  shows "rel_comp S (lock T E) (residual_block K1 X1 filters channels stage)
           (residual_block K2 X2 filters channels stage)"
  unfolding residual_block_def Let_def split_def
  by (intro rel_bnd [where V = T and E = E] app rel_ret lock_Inl) (simp_all add: X)

lemma cell_detector_rel:
  assumes inp: "rel_comp S (lock T E) (Input K1 sh) (Input K2 sh)"
    and app: "\<And>l xs ys. list_all2 T xs ys \<Longrightarrow>
      rel_comp S (lock T E) (apply_layer K1 l xs) (apply_layer K2 l ys)"
    and mdl: "\<And>i1 i2 o1 o2. T i1 i2 \<Longrightarrow> T o1 o2 \<Longrightarrow>
      rel_comp S Q (bnd (Model K1 i1 o1 ''CellDetector'') ret)
        (bnd (Model K2 i2 o2 ''CellDetector'') ret)"
    and err: "\<And>e1 e2. E e1 e2 \<Longrightarrow> Q (Inl e1) (Inl e2)"
  shows "rel_comp S Q (cell_detector K1 sh) (cell_detector K2 sh)"
  unfolding cell_detector_def
  by (intro mdl rel_bnd [where V = T and E = E] inp app residual_block_rel err lock_Inl)
    simp_all

subsection \<open>The shape rules alone\<close>

lemma keras_shapes_sel:
  "Input keras_shapes = (\<lambda>sh. ret (None, sh))"
  "apply_layer keras_shapes = (\<lambda>l xs u. (compute_output_shape l xs, u))"
  "Model keras_shapes = (\<lambda>i out name. ret out)"
  by (simp_all add: keras_shapes_def)

lemma residual_block_shapes:
  "residual_block keras_shapes (b, h, wd, c) (F1, F2) ch st u =
     (if c = 0 then (Inl Zero_depth, u)
      else if F1 = 0 then (Inl Zero_depth, u)
      else case broadcast_dim F2 c of
             Inl e \<Rightarrow> (Inl e, u)
           | Inr c' \<Rightarrow>
               if c' = 0 then (Inl Zero_depth, u)
               else if h = 0 \<or> wd = 0 then (Inl Negative_dimension, u)
               else (Inr (b, h, wd, ch), u))"
  by (simp add: residual_block_def Let_def bnd_apply ret_apply keras_shapes_sel
      shape_pointwise shape_conv_same shape_conv_1x1 shape_add
      del: compute_output_shape.simps split: sum.splits cong: prod.case_cong_weak)

lemma shape_pool_halved:
  "compute_output_shape (AveragePooling2D (2, 2) Valid) [(b, h, w, c)] =
     (if h < 2 then Inl Negative_dimension
      else if w < 2 then Inl Negative_dimension
      else Inr (b, halved h, halved w, c))"
  unfolding halved_def by (rule shape_pool)


lemma bnd_k: "bnd m f s = bnd_k f (m s)"
  by (simp add: bnd_def bnd_k_def)

lemma bnd_k_simps:
  "bnd_k f (Inl e, s) = (Inl e, s)"
  "bnd_k f (Inr a, s) = f a s"
  "bnd_k f (if c then x else y) = (if c then bnd_k f x else bnd_k f y)"
  "bnd_k f (if c then p else q, s) = (if c then bnd_k f (p, s) else bnd_k f (q, s))"
  "fst (if c then x else y) = (if c then fst x else fst y)"
  by (simp_all add: bnd_k_def)

lemma if_merge:
  "(if c then a else (if d then a else z)) = (if c \<or> d then a else z)"
  "(if c then (if d then z else a) else a) = (if c \<and> d then z else a)"
  by simp_all

lemma cell_detector_shapes_chain:
  "fst (cell_detector keras_shapes (H, W, C) u) =
     (if C = 0 then Inl Zero_depth
      else if (H = 0 \<or> W = 0) \<or> H < 2 \<or> W < 2 \<or>
         (halved H = 0 \<or> halved W = 0) \<or> halved H < 2 \<or> halved W < 2 \<or>
         (halved (halved H) = 0 \<or> halved (halved W) = 0) \<or>
         halved (halved H) < 2 \<or> halved (halved W) < 2 \<or>
         (halved (halved (halved H)) = 0 \<or> halved (halved (halved W)) = 0) \<or>
         halved (halved (halved H)) < 2 \<or> halved (halved (halved W)) < 2 \<or>
         halved (halved (halved (halved H))) = 0 \<or> halved (halved (halved (halved W))) = 0
      then Inl Negative_dimension
      else if (halved (halved (halved H)) = 2 * halved (halved (halved (halved H))) \<and>
               halved (halved (halved W)) = 2 * halved (halved (halved (halved W)))) \<and>
              (halved (halved H) = 2 * halved (halved (halved H)) \<and>
               halved (halved W) = 2 * halved (halved (halved W))) \<and>
              (halved H = 2 * halved (halved H) \<and> halved W = 2 * halved (halved W)) \<and>
              H = 2 * halved H \<and> W = 2 * halved W
           then Inr (None, H, W, 1)
           else Inl Concat_mismatch)"
  by (simp add: cell_detector_def bnd_k bnd_k_simps ret_apply keras_shapes_sel residual_block_shapes
      shape_conv_same shape_pool_halved shape_up shape_concat broadcast_dim_def if_merge
      del: compute_output_shape.simps split del: if_split cong: if_cong)

lemma halved_less: "(halved n < 2) = (n < 4)" "(halved n = 0) = (n < 2)"
  unfolding halved_def by (simp add: div_less_iff_less_mult, arith)

lemma halved_small:
  "(n < 2 \<or> halved n < 2 \<or> halved (halved n) < 2 \<or> halved (halved (halved n)) < 2) = (n < 16)"
proof -
  have a: "(halved n < 2) = (n < 4)" by (rule halved_less)
  have b: "(halved (halved n) < 2) = (n < 8)"
    unfolding halved_def by (simp add: div_less_iff_less_mult)
  have c: "(halved (halved (halved n)) < 2) = (n < 16)"
    unfolding halved_def by (simp add: div_less_iff_less_mult)
  show ?thesis unfolding a b c by auto
qed

lemma halved_exact:
  "(halved (halved (halved n)) = 2 * halved (halved (halved (halved n))) \<and>
    halved (halved n) = 2 * halved (halved (halved n)) \<and>
    halved n = 2 * halved (halved n) \<and> n = 2 * halved n) = (16 dvd n)"
proof
  assume "halved (halved (halved n)) = 2 * halved (halved (halved (halved n))) \<and>
    halved (halved n) = 2 * halved (halved (halved n)) \<and>
    halved n = 2 * halved (halved n) \<and> n = 2 * halved n"
  then have "n = 16 * halved (halved (halved (halved n)))"
    by linarith
  then show "16 dvd n"
    by (metis dvd_triv_left)
next
  assume "16 dvd n"
  then obtain k where n: "n = 16 * k" ..
  show "halved (halved (halved n)) = 2 * halved (halved (halved (halved n))) \<and>
    halved (halved n) = 2 * halved (halved (halved n)) \<and>
    halved n = 2 * halved (halved n) \<and> n = 2 * halved n"
    unfolding n halved_def by simp
qed

lemma cell_detector_shapes:
  "fst (cell_detector keras_shapes (H, W, C) u) =
     (if C = 0 then Inl Zero_depth
      else if H < 16 \<or> W < 16 then Inl Negative_dimension
      else if 16 dvd H \<and> 16 dvd W then Inr (None, H, W, 1)
      else Inl Concat_mismatch)"
proof -
  have D: "((H = 0 \<or> W = 0) \<or> H < 2 \<or> W < 2 \<or>
         (halved H = 0 \<or> halved W = 0) \<or> halved H < 2 \<or> halved W < 2 \<or>
         (halved (halved H) = 0 \<or> halved (halved W) = 0) \<or>
         halved (halved H) < 2 \<or> halved (halved W) < 2 \<or>
         (halved (halved (halved H)) = 0 \<or> halved (halved (halved W)) = 0) \<or>
         halved (halved (halved H)) < 2 \<or> halved (halved (halved W)) < 2 \<or>
         halved (halved (halved (halved H))) = 0 \<or> halved (halved (halved (halved W))) = 0)
        = (H < 16 \<or> W < 16)"
    using halved_small [of H] halved_small [of W]
    unfolding halved_less(2)
    by auto
  have E: "((halved (halved (halved H)) = 2 * halved (halved (halved (halved H))) \<and>
               halved (halved (halved W)) = 2 * halved (halved (halved (halved W)))) \<and>
              (halved (halved H) = 2 * halved (halved (halved H)) \<and>
               halved (halved W) = 2 * halved (halved (halved W))) \<and>
              (halved H = 2 * halved (halved H) \<and> halved W = 2 * halved (halved W)) \<and>
              H = 2 * halved H \<and> W = 2 * halved W)
        = (16 dvd H \<and> 16 dvd W)"
    using halved_exact [of H] halved_exact [of W] by blast
  show ?thesis
    unfolding cell_detector_shapes_chain D E ..
qed

subsection \<open>The Keras model fails where the shape rules fail\<close>

lemma cell_detector_shape_error:
  assumes "fst (cell_detector keras_shapes sh u) = Inl e"
  shows "fst (cell_detector keras2 sh w) = Inl e"
proof -
  let ?S = "\<lambda>(w::world) (u::unit). True"
  let ?T = "\<lambda>(t::tensor) (s::shape). snd t = s"
  let ?Q = "\<lambda>(r1::error + model) (r2::error + shape). \<forall>e. r2 = Inl e \<longrightarrow> r1 = Inl e"
  have "rel_comp ?S ?Q (cell_detector keras2 sh) (cell_detector keras_shapes sh)"
  proof (rule cell_detector_rel [where T = ?T and E = "(=)"])
    show "rel_comp ?S (lock ?T (=)) (Input keras2 sh) (Input keras_shapes sh)"
      by (simp add: rel_comp_def lock_def keras2_sel keras_shapes_sel keras_Input_run ret_def)
  next
    fix l xs ys
    assume "list_all2 ?T xs ys"
    then have "map snd xs = ys"
      by (induction rule: list_all2_induct) simp_all
    then show "rel_comp ?S (lock ?T (=)) (apply_layer keras2 l xs) (apply_layer keras_shapes l ys)"
      by (simp add: rel_comp_def lock_def keras2_sel keras_shapes_sel keras_apply_layer_run
          split: sum.splits)
  next
    fix i1 i2 o1 o2
    show "rel_comp ?S ?Q (bnd (Model keras2 i1 o1 ''CellDetector'') ret)
        (bnd (Model keras_shapes i2 o2 ''CellDetector'') ret)"
      by (simp add: rel_comp_def keras_shapes_sel bnd_def ret_def)
  next
    fix e1 e2 :: error
    assume "e1 = e2"
    then show "?Q (Inl e1) (Inl e2)" by simp
  qed
  then show ?thesis
    using assms unfolding rel_comp_def by blast
qed

lemma cell_detector_result:
  assumes "wf_world w"
  shows "fst (cell_detector keras2 (H, W, C) w) =
     (if C = 0 then Inl Zero_depth
      else if H < 16 \<or> W < 16 then Inl Negative_dimension
      else if 16 dvd H \<and> 16 dvd W
           then Inr \<lparr>m_input = (next_id w, (None, H, W, C)),
                     m_output = (off (next_id w) 89, (None, H, W, 1)),
                     m_name = ''CellDetector'',
                     m_nodes = rev (cd_nodes (next_id w) (H div 16) (W div 16) C)\<rparr>
           else Inl Concat_mismatch)"
proof (cases "0 < C \<and> \<not> (H < 16 \<or> W < 16) \<and> 16 dvd H \<and> 16 dvd W")
  case True
  then have H: "H = 16 * (H div 16)" and W: "W = 16 * (W div 16)"
    and p: "0 < H div 16" and q: "0 < W div 16" and C: "0 < C"
    by (simp_all add: div_greater_zero_iff)
  from cell_detector_run [OF p q C assms] True show ?thesis
    unfolding H [symmetric] W [symmetric] by simp
next
  case False
  then have "fst (cell_detector keras_shapes (H, W, C) ()) =
      (if C = 0 then Inl Zero_depth
       else if H < 16 \<or> W < 16 then Inl Negative_dimension else Inl Concat_mismatch)"
    unfolding cell_detector_shapes by auto
  then have "fst (cell_detector keras2 (H, W, C) w) =
      (if C = 0 then Inl Zero_depth
       else if H < 16 \<or> W < 16 then Inl Negative_dimension else Inl Concat_mismatch)"
    by (auto intro: cell_detector_shape_error split: if_splits)
  with False show ?thesis by auto
qed

subsection \<open>Reading the declared graph\<close>

lemma filter_rev_length: "length (filter P (rev xs)) = length (filter P xs)"
  by (simp add: rev_filter [symmetric])

lemma ball_filter: "(\<forall>n \<in> set xs. P n \<longrightarrow> Q n) = (\<forall>n \<in> set (filter P xs). Q n)"
  by auto

lemma cd_nodes_adds:
  "length (filter (\<lambda>n. made_by n = Inr Add) (cd_nodes i p q C)) = 9"
  "\<forall>n \<in> set (filter (\<lambda>n. made_by n = Inr Add) (cd_nodes i p q C)).
      length (inbound n) = 2 \<and>
      (\<forall>j \<in> set (inbound n). \<exists>a \<in> set (cd_nodes i p q C).
         node_id a = j \<and> chans (out_shape a) = chans (out_shape n))"
  by (simp_all add: cd_nodes_def rb_nodes_def node_sel off_simps chans_def)

subsection \<open>The value a residual block computes\<close>

lemma off_old: "x < i \<Longrightarrow> 0 \<le> k \<Longrightarrow> (off i k = x) = False"
  by (simp add: off_def)

lemma residual_block_value:
  assumes x: "x < next_id w"
  shows "node_value U cat (rb_nodes (next_id w) x (b, h, wd, c) (F1, F2) ch st @ graph w) feed
           (off (next_id w) 7) =
         U (off (next_id w) 7) (Conv2D ch (1, 1) (1, 1) Valid None)
           (of_rat 0.3 *\<^sub>R
              U (off (next_id w) 4)
                (Conv2D F2 (3, 3) (1, 1) Same (Some (''res_'' @ str st @ ''_branch_2_b'')))
                (U (off (next_id w) 3) (ELU 1)
                   (U (off (next_id w) 2) (Dropout 0.2)
                      (U (off (next_id w) 1)
                         (Conv2D F1 (3, 3) (1, 1) Same (Some (''res_'' @ str st @ ''_branch_2_a'')))
                         (U (next_id w) (ELU 1) (node_value U cat (graph w) feed x))))) +
            node_value U cat (graph w) feed x)"
proof -
  have neq: "next_id w \<noteq> x" using x by simp
  show ?thesis
    using neq by (simp add: rb_nodes_def node_sel off_simps off_old [OF x])
qed

lemma cd_nodes_pools:
  "\<forall>n \<in> set (filter (\<lambda>n. made_by n = Inr (AveragePooling2D (2, 2) Valid)) (cd_nodes i p q C)).
      \<exists>a \<in> set (cd_nodes i p q C). inbound n = [node_id a] \<and>
        fst (spatial (out_shape a)) = 2 * fst (spatial (out_shape n)) \<and>
        snd (spatial (out_shape a)) = 2 * snd (spatial (out_shape n))"
  "map (\<lambda>n. spatial (out_shape n))
     (filter (\<lambda>n. made_by n = Inr (AveragePooling2D (2, 2) Valid)) (cd_nodes i p q C)) =
   [(p, q), (2 * p, 2 * q), (4 * p, 4 * q), (8 * p, 8 * q)]"
  by (simp_all add: cd_nodes_def rb_nodes_def node_sel off_simps spatial_def)

lemma cd_nodes_ups:
  "\<forall>n \<in> set (filter (\<lambda>n. made_by n = Inr (UpSampling2D (2, 2) Bilinear)) (cd_nodes i p q C)).
      \<exists>a \<in> set (cd_nodes i p q C). inbound n = [node_id a] \<and>
        fst (spatial (out_shape n)) = 2 * fst (spatial (out_shape a)) \<and>
        snd (spatial (out_shape n)) = 2 * snd (spatial (out_shape a))"
  by (simp add: cd_nodes_def rb_nodes_def node_sel off_simps spatial_def)

lemma cd_nodes_concats:
  "\<forall>n \<in> set (filter (\<lambda>n. made_by n = Inr (Concatenate (- 1))) (cd_nodes i p q C)).
      length (inbound n) = 2 \<and>
      (\<forall>j \<in> set (inbound n). \<exists>a \<in> set (cd_nodes i p q C).
         node_id a = j \<and> spatial (out_shape a) = spatial (out_shape n)) \<and>
      (\<exists>a \<in> set (cd_nodes i p q C). node_id a = inbound n ! 0 \<and>
         (\<exists>f. made_by a = Inr (Conv2D f (1, 1) (1, 1) Valid None))) \<and>
      (\<exists>a \<in> set (cd_nodes i p q C). node_id a = inbound n ! 1 \<and>
         made_by a = Inr (UpSampling2D (2, 2) Bilinear))"
  "map (\<lambda>n. spatial (out_shape n))
     (filter (\<lambda>n. made_by n = Inr (Concatenate (- 1))) (cd_nodes i p q C)) =
   [(16 * p, 16 * q), (8 * p, 8 * q), (4 * p, 4 * q), (2 * p, 2 * q)]"
  by (simp_all add: cd_nodes_def rb_nodes_def node_sel off_simps spatial_def)

lemma set_filter_rev: "set (filter P (rev xs)) = set (filter P xs)"
  by simp

lemma map_filter_rev_list: "map f (filter P (rev xs)) = rev (map f (filter P xs))"
  by (simp add: rev_filter rev_map)

lemma cell_detector_model_nodes:
  assumes "wf_world w" and "fst (cell_detector keras2 (H, W, C) w) = Inr m"
  shows "m_nodes m = rev (cd_nodes (next_id w) (H div 16) (W div 16) C)"
    and "H = 16 * (H div 16)" and "W = 16 * (W div 16)"
  using assms(2) unfolding cell_detector_result [OF assms(1)]
  by (auto split: if_splits)

subsection \<open>The same graph at another place of the store\<close>

lemma rb_nodes_shift:
  "map (shift_node d) (rb_nodes i x s filters ch st) = rb_nodes (i + d) (x + d) s filters ch st"
  by (cases s) (simp add: rb_nodes_def shift_node_def mk_def off_def)

lemma off_shift: "off i k + d = off (i + d) k"
  by (simp add: off_def)

lemma cd_nodes_shift:
  "map (shift_node d) (cd_nodes i p q C) = cd_nodes (i + d) p q C"
  by (simp add: cd_nodes_def rb_nodes_shift off_shift)
    (simp add: shift_node_def mk_def input_node_def off_def)

lemma made_by_shift: "map made_by (map (shift_node d) ns) = map made_by ns"
  by (simp add: shift_node_def)

lemma cd_nodes_names:
  "List.map_filter layer_name (rev (cd_nodes i p q C)) =
     [''res_1_branch_2_a'', ''res_1_branch_2_b'', ''res_2_branch_2_a'', ''res_2_branch_2_b'',
      ''res_3_branch_2_a'', ''res_3_branch_2_b'', ''res_4_branch_2_a'', ''res_4_branch_2_b'',
      ''res_5_branch_2_a'', ''res_5_branch_2_b'', ''res_6_branch_2_a'', ''res_6_branch_2_b'',
      ''res_7_branch_2_a'', ''res_7_branch_2_b'', ''res_8_branch_2_a'', ''res_8_branch_2_b'',
      ''res_9_branch_2_a'', ''res_9_branch_2_b'']"
  unfolding map_filter_rev
  by (simp add: cd_nodes_def rb_nodes_def layer_name_sel List.map_filter_simps str_stage)

subsection \<open>What every framework call preserves, the code preserves\<close>

lemma lock_refl: "lock (=) (=) r r"
  by (simp add: lock_def split: sum.splits)

lemma snd_bnd_ret: "snd (bnd m ret s) = snd (m s)"
  by (simp add: bnd_def ret_def split: prod.splits sum.splits)

lemma fst_bnd_ret: "fst (bnd m ret s) = fst (m s)"
  by (simp add: bnd_def ret_def split: prod.splits sum.splits)

lemma cell_detector_invariant:
  fixes K :: "('t, 'm, 's, 'e) keras"
  assumes inp: "\<And>s. P s \<Longrightarrow> P (snd (Input K sh s))"
    and app: "\<And>l xs s. P s \<Longrightarrow> P (snd (apply_layer K l xs s))"
    and mdl: "\<And>i out s. P s \<Longrightarrow> P (snd (Model K i out ''CellDetector'' s))"
    and s: "P s"
  shows "P (snd (cell_detector K sh s))"
proof -
  let ?S = "\<lambda>s1 s2. s1 = s2 \<and> P s1"
  have "rel_comp ?S (\<lambda>r1 r2. True) (cell_detector K sh) (cell_detector K sh)"
  proof (rule cell_detector_rel [where T = "(=)" and E = "(=)"])
    show "rel_comp ?S (lock (=) (=)) (Input K sh) (Input K sh)"
      by (simp add: rel_comp_def lock_refl inp)
  next
    fix l and xs ys :: "'t list"
    assume "list_all2 (=) xs ys"
    then have "xs = ys"
      by (simp add: list.rel_eq)
    then show "rel_comp ?S (lock (=) (=)) (apply_layer K l xs) (apply_layer K l ys)"
      by (simp add: rel_comp_def lock_refl app)
  next
    fix i1 i2 o1 o2 :: 't
    assume "i1 = i2" "o1 = o2"
    then show "rel_comp ?S (\<lambda>r1 r2. True) (bnd (Model K i1 o1 ''CellDetector'') ret)
        (bnd (Model K i2 o2 ''CellDetector'') ret)"
      by (simp add: rel_comp_def snd_bnd_ret mdl)
  next
    fix e1 e2 :: 'e
    show True ..
  qed
  with s show ?thesis
    unfolding rel_comp_def by blast
qed

lemma keras2_adds_nodes:
  "snd (keras_Input sh s) = grow [input_node (next_id s) sh] s"
  "snd (keras_apply_layer l xs s) = s \<or>
     (\<exists>sp. snd (keras_apply_layer l xs s) = grow [mk (next_id s) l (map fst xs) sp] s)"
  "snd (keras_Model i out name s) = s"
  by (auto simp add: keras_Input_def keras_apply_layer_def keras_Model_def new_node_def
      grow_def input_node_def mk_def split: sum.splits)

lemma wf_world_grow1:
  "wf_world s \<Longrightarrow> node_id n = next_id s \<Longrightarrow> wf_world (grow [n] s)"
  by (auto simp add: wf_world_def grow_def)

lemma cell_detector_wf:
  assumes "wf_world w"
  shows "wf_world (snd (cell_detector keras2 sh w))"
proof (rule cell_detector_invariant [where P = wf_world, OF _ _ _ assms])
  fix s :: world
  assume s: "wf_world s"
  show "wf_world (snd (Input keras2 sh s))"
    using s by (simp add: keras2_sel keras2_adds_nodes wf_world_grow1 input_node_def)
  show "wf_world (snd (Model keras2 i out ''CellDetector'' s))" for i out
    using s by (simp add: keras2_sel keras2_adds_nodes)
  show "wf_world (snd (apply_layer keras2 l xs s))" for l xs
    using s keras2_adds_nodes(2) [of l xs s]
    by (auto simp add: keras2_sel wf_world_grow1 mk_def)
qed

subsection \<open>The topology of the declared graph\<close>






section \<open>The first exception ends the run\<close>










subsection \<open>Watching does not change the run\<close>








section \<open>The claims\<close>

lemma wf_world0: "wf_world world0"
  by (simp add: wf_world_def world0_def)

text \<open>
  C2. On the default input shape \<open>(128, 128, 3)\<close>, in any well-formed state of the
  framework, \<open>cell_detector\<close> returns a model whose input has the static shape
  \<open>(None, 128, 128, 3)\<close> and whose output has the static shape \<open>(None, 128, 128, 1)\<close>:
  the input resolution is restored and the map has exactly one channel. The output is
  produced by the final 3x3 \<open>'same'\<close>-padding \<open>Conv2D\<close> with one filter.
\<close>

theorem C2_default_output_shape:
  assumes "wf_world w"
  shows "\<exists>m. fst (cell_detector keras2 (128, 128, 3) w) = Inr m \<and>
           snd (m_input m) = (None, 128, 128, 3) \<and>
           snd (m_output m) = (None, 128, 128, 1) \<and>
           (\<exists>n \<in> set (m_nodes m). node_id n = fst (m_output m) \<and>
              made_by n = Inr (Conv2D 1 (3, 3) (1, 1) Same None))"
proof -
  have "mk (off (next_id w) 89) (Conv2D 1 (3, 3) (1, 1) Same None) [off (next_id w) 88]
          (None, 16 * 8, 16 * 8, 1) \<in> set (cd_nodes (next_id w) 8 8 3)"
    by (simp add: cd_nodes_def)
  then show ?thesis
    using cell_detector_run [where p = 8 and q = 8 and C = 3 and w = w] assms
    by (auto simp add: node_sel intro!: bexI [where x = "mk (off (next_id w) 89)
          (Conv2D 1 (3, 3) (1, 1) Same None) [off (next_id w) 88] (None, 16 * 8, 16 * 8, 1)"])
qed

theorem C2_default_output_shape_witness:
  "wf_world world0 \<and>
   (\<exists>m. fst (cell_detector keras2 (128, 128, 3) world0) = Inr m \<and>
         snd (m_input m) = (None, 128, 128, 3) \<and>
         snd (m_output m) = (None, 128, 128, 1) \<and>
         (\<exists>n \<in> set (m_nodes m). node_id n = fst (m_output m) \<and>
            made_by n = Inr (Conv2D 1 (3, 3) (1, 1) Same None)))"
  using C2_default_output_shape [OF wf_world0] wf_world0 by simp

text \<open>
  C6, as stated: for every input shape \<open>(H, W, C)\<close> the graph is shape-consistent if and
  only if \<open>H\<close> and \<open>W\<close> are divisible by 16. This fails at height and width 0, which 16
  divides, with three channels: the final 1x1 \<open>'valid'\<close> convolution of the first residual
  block is applied to an empty feature map and TensorFlow rejects it.
\<close>

theorem C6_counterexample:
  "(16::nat) dvd 0 \<and> fst (cell_detector keras2 (0, 0, 3) world0) = Inl Negative_dimension"
  using cell_detector_result [OF wf_world0, of 0 0 3] by simp

text \<open>
  C6, amended: in a well-formed state and for an input of at least one channel
  (\<open>C \<ge> 1\<close>), \<open>cell_detector (H, W, C)\<close> returns a model if and only if \<open>H\<close> and \<open>W\<close> are
  positive multiples of 16. Otherwise construction raises a shape error: a pooling or
  convolution window larger than its input when \<open>H\<close> or \<open>W\<close> is below 16, and a
  \<open>Concatenate\<close> of unequal spatial sizes exactly when both are at least 16 and one is not
  a multiple of 16. The default \<open>(128, 128, 3)\<close> satisfies the condition.
\<close>

theorem C6_shape_consistent_iff:
  assumes "wf_world w" and "0 < C"
  shows "((\<exists>m. fst (cell_detector keras2 (H, W, C) w) = Inr m) =
            (0 < H \<and> 0 < W \<and> 16 dvd H \<and> 16 dvd W)) \<and>
         ((fst (cell_detector keras2 (H, W, C) w) = Inl Negative_dimension) =
            (H < 16 \<or> W < 16)) \<and>
         ((fst (cell_detector keras2 (H, W, C) w) = Inl Concat_mismatch) =
            (16 \<le> H \<and> 16 \<le> W \<and> \<not> (16 dvd H \<and> 16 dvd W))) \<and>
         (\<exists>m. fst (cell_detector keras2 (128, 128, 3) w) = Inr m)"
proof -
  have pos: "\<And>n::nat. (0 < n \<and> 16 dvd n) = (\<not> n < 16 \<and> 16 dvd n)"
    by (auto dest: dvd_imp_le)
  have "(0 < H \<and> 0 < W \<and> 16 dvd H \<and> 16 dvd W) =
        (\<not> (H < 16 \<or> W < 16) \<and> 16 dvd H \<and> 16 dvd W)"
    using pos [of H] pos [of W] by blast
  then show ?thesis
    using assms(2) unfolding cell_detector_result [OF assms(1)] by auto
qed

theorem C6_shape_consistent_iff_witness:
  "wf_world world0 \<and> 0 < (3::nat) \<and>
   ((\<exists>m. fst (cell_detector keras2 (32, 48, 3) world0) = Inr m) =
      (0 < (32::nat) \<and> 0 < (48::nat) \<and> (16::nat) dvd 32 \<and> (16::nat) dvd 48)) \<and>
   (\<exists>m. fst (cell_detector keras2 (128, 128, 3) world0) = Inr m)"
  using C6_shape_consistent_iff [OF wf_world0, where C = 3 and H = 32 and W = 48] wf_world0
  by simp

text \<open>
  C7, as stated: the \<open>Add\<close> layer of \<open>residual_block\<close> is shape-valid only when \<open>F2\<close> equals
  the channel count of the input. Keras merge layers broadcast a dimension of size 1:
  on a placeholder of 3 channels, \<open>filters = [3, 1]\<close> builds without error.
\<close>

theorem C7_counterexample:
  "fst (residual_block keras2 (0, (Some 5, 128, 128, 3)) (3, 1) 3 1
          (snd (tf_placeholder (Some 5, 128, 128, 3) world0))) = Inr (8, (Some 5, 128, 128, 3)) \<and>
   (1::nat) \<noteq> 3"
  by (simp add: tf_placeholder_def new_node_def world0_def residual_block_run
      Let_def broadcast_dim_def off_def)

text \<open>
  C7, amended: on an input of at least one channel (\<open>c \<ge> 1\<close>) and with at least one
  filter in the first convolution (\<open>F1 \<ge> 1\<close>), the \<open>Add\<close> layer of \<open>residual_block\<close> is
  rejected exactly when \<open>F2\<close> differs from the channel count of the input and neither of
  the two is 1; whenever the block returns a tensor, its channel count is the \<open>channels\<close>
  argument. In \<open>cell_detector\<close>, on any input shape, the \<open>Add\<close> never fails, and in the
  model built there are nine \<open>Add\<close> nodes, each joining two tensors of its own channel
  count.
\<close>

theorem C7_add_precondition:
  assumes "wf_world w" and "0 < F1" and "0 < c"
  shows "((fst (residual_block keras2 (x, (b, h, wd, c)) (F1, F2) ch st w) = Inl Not_broadcastable) =
            (F2 \<noteq> c \<and> F2 \<noteq> 1 \<and> c \<noteq> 1)) \<and>
         (\<forall>t. fst (residual_block keras2 (x, (b, h, wd, c)) (F1, F2) ch st w) = Inr t \<longrightarrow>
            chans (snd t) = ch) \<and>
         fst (cell_detector keras2 (H, W, C) w) \<noteq> Inl Not_broadcastable \<and>
         (\<forall>m. fst (cell_detector keras2 (H, W, C) w) = Inr m \<longrightarrow>
            length (filter (\<lambda>n. made_by n = Inr Add) (m_nodes m)) = 9 \<and>
            (\<forall>n \<in> set (m_nodes m). made_by n = Inr Add \<longrightarrow>
               length (inbound n) = 2 \<and>
               (\<forall>j \<in> set (inbound n). \<exists>a \<in> set (m_nodes m).
                  node_id a = j \<and> chans (out_shape a) = chans (out_shape n))))"
proof (intro conjI)
  show "(fst (residual_block keras2 (x, (b, h, wd, c)) (F1, F2) ch st w) = Inl Not_broadcastable) =
            (F2 \<noteq> c \<and> F2 \<noteq> 1 \<and> c \<noteq> 1)"
    using assms(2,3) by (simp add: residual_block_run Let_def broadcast_dim_def)
  show "\<forall>t. fst (residual_block keras2 (x, (b, h, wd, c)) (F1, F2) ch st w) = Inr t \<longrightarrow>
            chans (snd t) = ch"
    by (auto simp add: residual_block_run Let_def chans_def split: sum.splits if_splits)
  show "fst (cell_detector keras2 (H, W, C) w) \<noteq> Inl Not_broadcastable"
    unfolding cell_detector_result [OF assms(1)] by simp
  show "\<forall>m. fst (cell_detector keras2 (H, W, C) w) = Inr m \<longrightarrow>
            length (filter (\<lambda>n. made_by n = Inr Add) (m_nodes m)) = 9 \<and>
            (\<forall>n \<in> set (m_nodes m). made_by n = Inr Add \<longrightarrow>
               length (inbound n) = 2 \<and>
               (\<forall>j \<in> set (inbound n). \<exists>a \<in> set (m_nodes m).
                  node_id a = j \<and> chans (out_shape a) = chans (out_shape n)))"
  proof (intro allI impI)
    fix m
    assume "fst (cell_detector keras2 (H, W, C) w) = Inr m"
    then have m: "m_nodes m = rev (cd_nodes (next_id w) (H div 16) (W div 16) C)"
      unfolding cell_detector_result [OF assms(1)] by (auto split: if_splits)
    show "length (filter (\<lambda>n. made_by n = Inr Add) (m_nodes m)) = 9 \<and>
            (\<forall>n \<in> set (m_nodes m). made_by n = Inr Add \<longrightarrow>
               length (inbound n) = 2 \<and>
               (\<forall>j \<in> set (inbound n). \<exists>a \<in> set (m_nodes m).
                  node_id a = j \<and> chans (out_shape a) = chans (out_shape n)))"
      unfolding m filter_rev_length set_rev ball_filter
      using cd_nodes_adds [of "next_id w" "H div 16" "W div 16" C] by blast
  qed
qed

theorem C7_add_precondition_witness:
  "wf_world (snd (tf_placeholder (Some 5, 128, 128, 3) world0)) \<and> 0 < (3::nat) \<and>
   fst (residual_block keras2 (0, (Some 5, 128, 128, 3)) (3, 2) 3 1
          (snd (tf_placeholder (Some 5, 128, 128, 3) world0))) = Inl Not_broadcastable \<and>
   (2::nat) \<noteq> 3 \<and> (2::nat) \<noteq> 1 \<and> (3::nat) \<noteq> 1 \<and>
   fst (cell_detector keras2 (128, 128, 3)
          (snd (tf_placeholder (Some 5, 128, 128, 3) world0))) \<noteq> Inl Not_broadcastable"
proof -
  let ?w = "snd (tf_placeholder (Some 5, 128, 128, 3) world0)"
  have wf: "wf_world ?w"
    by (simp add: wf_world_def tf_placeholder_def new_node_def world0_def)
  show ?thesis
    using C7_add_precondition [OF wf, where ?F1.0 = 3 and c = 3 and ?F2.0 = 2 and x = 0
        and b = "Some 5" and h = 128 and wd = 128 and ch = 3 and st = 1
        and H = 128 and W = 128 and C = 3] wf
    by simp
qed

text \<open>
  C1, as stated: the output of the block equals \<open>X + 0.3 * F(X)\<close>. With all convolutions
  at zero and the input fed with 1, \<open>F(X) = 0\<close> and \<open>X + 0.3 * F(X) = 1\<close>, but the block
  returns 0: its output is not the sum but a further convolution of it.
\<close>

theorem C1_counterexample:
  "fst (residual_block keras2 (0, (Some 5, 128, 128, 3)) (3, 3) 3 1
          (snd (tf_placeholder (Some 5, 128, 128, 3) world0))) = Inr (8, (Some 5, 128, 128, 3)) \<and>
   node_value zero_convs sum_list
     (graph (snd (residual_block keras2 (0, (Some 5, 128, 128, 3)) (3, 3) 3 1
                    (snd (tf_placeholder (Some 5, 128, 128, 3) world0)))))
     (feed_all 1) 8 = 0 \<and>
   (1::real) + 0.3 *
     zero_convs 5 (Conv2D 3 (3, 3) (1, 1) Same (Some ''res_1_branch_2_b''))
       (zero_convs 4 (ELU 1) (zero_convs 3 (Dropout 0.2)
          (zero_convs 2 (Conv2D 3 (3, 3) (1, 1) Same (Some ''res_1_branch_2_a''))
             (zero_convs 1 (ELU 1) 1)))) = 1"
  by (simp add: tf_placeholder_def new_node_def world0_def residual_block_run Let_def
      broadcast_dim_def graph_grow rb_nodes_def node_sel off_def zero_convs_def feed_all_def
      str_stage)

text \<open>
  C1, amended: for every input tensor \<open>X\<close> that exists in the graph, whenever
  \<open>residual_block\<close> returns, the tensor it returns is the 1x1 \<open>Conv2D\<close> with \<open>channels\<close>
  filters applied to \<open>0.3 * F(X) + X\<close>, where \<open>F\<close> is ELU, 3x3 convolution with \<open>F1\<close>
  filters, dropout at rate 0.2, ELU, 3x3 convolution with \<open>F2\<close> filters, and the sum is
  formed by an \<open>Add\<close> layer from the scaled branch and \<open>X\<close>; this holds under every
  interpretation of the layers.
\<close>

theorem C1_residual_block_output:
  assumes "x < next_id w"
    and "residual_block keras2 (x, (b, h, wd, c)) (F1, F2) ch st w = (Inr t, w')"
  shows "node_value U cat (graph w') feed (fst t) =
         U (fst t) (Conv2D ch (1, 1) (1, 1) Valid None)
           (of_rat 0.3 *\<^sub>R
              U (off (next_id w) 4)
                (Conv2D F2 (3, 3) (1, 1) Same (Some (''res_'' @ str st @ ''_branch_2_b'')))
                (U (off (next_id w) 3) (ELU 1)
                   (U (off (next_id w) 2) (Dropout 0.2)
                      (U (off (next_id w) 1)
                         (Conv2D F1 (3, 3) (1, 1) Same (Some (''res_'' @ str st @ ''_branch_2_a'')))
                         (U (next_id w) (ELU 1) (node_value U cat (graph w) feed x))))) +
            node_value U cat (graph w) feed x) \<and>
         (\<exists>n \<in> set (graph w'). node_id n = fst t \<and>
            made_by n = Inr (Conv2D ch (1, 1) (1, 1) Valid None) \<and>
            (\<exists>a \<in> set (graph w'). inbound n = [node_id a] \<and> made_by a = Inr Add \<and>
               inbound a = [off (next_id w) 5, x]))"
proof -
  from assms(2) have t: "fst t = off (next_id w) 7"
    and w': "w' = grow (rb_nodes (next_id w) x (b, h, wd, c) (F1, F2) ch st) w"
    by (auto simp add: residual_block_run Let_def split: sum.splits if_splits)
  have "\<exists>n \<in> set (graph w'). node_id n = fst t \<and>
            made_by n = Inr (Conv2D ch (1, 1) (1, 1) Valid None) \<and>
            (\<exists>a \<in> set (graph w'). inbound n = [node_id a] \<and> made_by a = Inr Add \<and>
               inbound a = [off (next_id w) 5, x])"
    unfolding t w' graph_grow
    by (simp add: rb_nodes_def node_sel off_simps)
  then show ?thesis
    using residual_block_value [OF assms(1), of U cat b h wd c F1 F2 ch st feed]
    unfolding t w' graph_grow by simp
qed

theorem C1_residual_block_output_witness:
  "(0::int) < next_id (snd (tf_placeholder (Some 5, 128, 128, 3) world0)) \<and>
   node_value zero_convs sum_list
     (graph (snd (residual_block keras2 (0, (Some 5, 128, 128, 3)) (3, 3) 3 1
                    (snd (tf_placeholder (Some 5, 128, 128, 3) world0)))))
     (feed_all 1) 8 =
   zero_convs 8 (Conv2D 3 (1, 1) (1, 1) Valid None) (of_rat 0.3 *\<^sub>R 0 + 1)"
proof -
  let ?w = "snd (tf_placeholder (Some 5, 128, 128, 3) world0)"
  have x: "(0::int) < next_id ?w"
    by (simp add: tf_placeholder_def new_node_def world0_def)
  have n: "next_id ?w = 1" "graph ?w = [\<lparr>node_id = 0, made_by = Inl Placeholder, inbound = [],
      out_shape = (Some 5, 128, 128, 3)\<rparr>]"
    by (simp_all add: tf_placeholder_def new_node_def world0_def)
  have run: "residual_block keras2 (0, (Some 5, 128, 128, 3)) (3, 3) 3 1 ?w =
      (Inr (8, (Some 5, 128, 128, 3)), snd (residual_block keras2 (0, (Some 5, 128, 128, 3)) (3, 3) 3 1 ?w))"
    by (simp add: residual_block_run Let_def broadcast_dim_def n off_def)
  show ?thesis
    using C1_residual_block_output [OF x run, of zero_convs sum_list "feed_all 1"] x
    by (simp add: n off_def zero_convs_def feed_all_def)
qed

text \<open>
  C3. In the graph of every model that \<open>cell_detector\<close> returns: each
  \<open>AveragePooling2D\<close> with pool size \<open>(2, 2)\<close> has an output of half the height and half
  the width of its input; each \<open>UpSampling2D\<close> with size \<open>(2, 2)\<close> has an output of twice
  the height and width of its input; each \<open>concatenate\<close> joins two tensors of its own
  spatial size, the first the output of a residual block (its closing 1x1 convolution) and
  the second an upsampled tensor. For the default \<open>128 x 128\<close> input the poolings produce
  \<open>64, 32, 16, 8\<close> and the four concatenations happen at \<open>16, 32, 64, 128\<close>, in the order
  of construction.
\<close>

theorem C3_resolutions:
  assumes "wf_world w"
  shows "(\<forall>m. fst (cell_detector keras2 (H, W, C) w) = Inr m \<longrightarrow>
            (\<forall>n \<in> set (m_nodes m). made_by n = Inr (AveragePooling2D (2, 2) Valid) \<longrightarrow>
               (\<exists>a \<in> set (m_nodes m). inbound n = [node_id a] \<and>
                  fst (spatial (out_shape a)) = 2 * fst (spatial (out_shape n)) \<and>
                  snd (spatial (out_shape a)) = 2 * snd (spatial (out_shape n)))) \<and>
            (\<forall>n \<in> set (m_nodes m). made_by n = Inr (UpSampling2D (2, 2) Bilinear) \<longrightarrow>
               (\<exists>a \<in> set (m_nodes m). inbound n = [node_id a] \<and>
                  fst (spatial (out_shape n)) = 2 * fst (spatial (out_shape a)) \<and>
                  snd (spatial (out_shape n)) = 2 * snd (spatial (out_shape a)))) \<and>
            (\<forall>n \<in> set (m_nodes m). made_by n = Inr (Concatenate (- 1)) \<longrightarrow>
               length (inbound n) = 2 \<and>
               (\<forall>j \<in> set (inbound n). \<exists>a \<in> set (m_nodes m).
                  node_id a = j \<and> spatial (out_shape a) = spatial (out_shape n)) \<and>
               (\<exists>a \<in> set (m_nodes m). node_id a = inbound n ! 0 \<and>
                  (\<exists>f. made_by a = Inr (Conv2D f (1, 1) (1, 1) Valid None))) \<and>
               (\<exists>a \<in> set (m_nodes m). node_id a = inbound n ! 1 \<and>
                  made_by a = Inr (UpSampling2D (2, 2) Bilinear)))) \<and>
         (\<forall>m. fst (cell_detector keras2 (128, 128, 3) w) = Inr m \<longrightarrow>
            map (\<lambda>n. spatial (out_shape n))
              (filter (\<lambda>n. made_by n = Inr (AveragePooling2D (2, 2) Valid)) (m_nodes m)) =
              [(64, 64), (32, 32), (16, 16), (8, 8)] \<and>
            map (\<lambda>n. spatial (out_shape n))
              (filter (\<lambda>n. made_by n = Inr (Concatenate (- 1))) (m_nodes m)) =
              [(16, 16), (32, 32), (64, 64), (128, 128)])"
proof (intro conjI allI impI)
  fix m
  assume m: "fst (cell_detector keras2 (H, W, C) w) = Inr m"
  note ns = cell_detector_model_nodes(1) [OF assms m]
  show "\<forall>n \<in> set (m_nodes m). made_by n = Inr (AveragePooling2D (2, 2) Valid) \<longrightarrow>
               (\<exists>a \<in> set (m_nodes m). inbound n = [node_id a] \<and>
                  fst (spatial (out_shape a)) = 2 * fst (spatial (out_shape n)) \<and>
                  snd (spatial (out_shape a)) = 2 * snd (spatial (out_shape n)))"
    unfolding ns ball_filter set_filter_rev unfolding set_rev
    by (rule cd_nodes_pools(1))
  show "\<forall>n \<in> set (m_nodes m). made_by n = Inr (UpSampling2D (2, 2) Bilinear) \<longrightarrow>
               (\<exists>a \<in> set (m_nodes m). inbound n = [node_id a] \<and>
                  fst (spatial (out_shape n)) = 2 * fst (spatial (out_shape a)) \<and>
                  snd (spatial (out_shape n)) = 2 * snd (spatial (out_shape a)))"
    unfolding ns ball_filter set_filter_rev unfolding set_rev
    by (rule cd_nodes_ups)
  show "\<forall>n \<in> set (m_nodes m). made_by n = Inr (Concatenate (- 1)) \<longrightarrow>
               length (inbound n) = 2 \<and>
               (\<forall>j \<in> set (inbound n). \<exists>a \<in> set (m_nodes m).
                  node_id a = j \<and> spatial (out_shape a) = spatial (out_shape n)) \<and>
               (\<exists>a \<in> set (m_nodes m). node_id a = inbound n ! 0 \<and>
                  (\<exists>f. made_by a = Inr (Conv2D f (1, 1) (1, 1) Valid None))) \<and>
               (\<exists>a \<in> set (m_nodes m). node_id a = inbound n ! 1 \<and>
                  made_by a = Inr (UpSampling2D (2, 2) Bilinear))"
    unfolding ns ball_filter set_filter_rev unfolding set_rev
    by (rule cd_nodes_concats(1))
next
  fix m
  assume m: "fst (cell_detector keras2 (128, 128, 3) w) = Inr m"
  have ns: "m_nodes m = rev (cd_nodes (next_id w) 8 8 3)"
    using cell_detector_model_nodes(1) [OF assms m] by simp
  show "map (\<lambda>n. spatial (out_shape n))
          (filter (\<lambda>n. made_by n = Inr (AveragePooling2D (2, 2) Valid)) (m_nodes m)) =
          [(64, 64), (32, 32), (16, 16), (8, 8)]"
    unfolding ns map_filter_rev_list cd_nodes_pools(2) by simp
  show "map (\<lambda>n. spatial (out_shape n))
          (filter (\<lambda>n. made_by n = Inr (Concatenate (- 1))) (m_nodes m)) =
          [(16, 16), (32, 32), (64, 64), (128, 128)]"
    unfolding ns map_filter_rev_list cd_nodes_concats(2) by simp
qed

theorem C3_resolutions_witness:
  "wf_world world0 \<and>
   (\<exists>m. fst (cell_detector keras2 (128, 128, 3) world0) = Inr m \<and>
      map (\<lambda>n. spatial (out_shape n))
        (filter (\<lambda>n. made_by n = Inr (AveragePooling2D (2, 2) Valid)) (m_nodes m)) =
        [(64, 64), (32, 32), (16, 16), (8, 8)] \<and>
      map (\<lambda>n. spatial (out_shape n))
        (filter (\<lambda>n. made_by n = Inr (Concatenate (- 1))) (m_nodes m)) =
        [(16, 16), (32, 32), (64, 64), (128, 128)])"
proof -
  obtain m where "fst (cell_detector keras2 (128, 128, 3) world0) = Inr m"
    unfolding cell_detector_result [OF wf_world0] by simp
  then show ?thesis
    using C3_resolutions [OF wf_world0, of 128 128 3] wf_world0 by blast
qed

text \<open>
  C10. \<open>cell_detector\<close> is a deterministic graph declaration. Take any input shape and any
  two calls, in whatever well-formed states of the framework (in particular the second
  call right after the first). If one call raises, the other raises the same error. If
  one returns a model, so does the other, and the two models have the same structure:
  node by node the same layer with the same parameters (filter counts, kernel sizes,
  strides, pool and upsampling sizes, padding, scaling factor), the same output shapes and
  the same wiring, the node identities of the second being those of the first moved by one
  distance. The named layers of every model built are \<open>res_<stage>_branch_2_a\<close> and
  \<open>res_<stage>_branch_2_b\<close> for the stages 1 to 9, in this order.
\<close>

theorem C10_deterministic:
  assumes "wf_world w1" and "wf_world w2"
  shows "(\<forall>e. fst (cell_detector keras2 sh w1) = Inl e \<longrightarrow>
            fst (cell_detector keras2 sh w2) = Inl e) \<and>
         (\<forall>m1. fst (cell_detector keras2 sh w1) = Inr m1 \<longrightarrow>
            (\<exists>m2. fst (cell_detector keras2 sh w2) = Inr m2 \<and>
               same_structure m1 m2 \<and>
               map made_by (m_nodes m2) = map made_by (m_nodes m1) \<and>
               map out_shape (m_nodes m2) = map out_shape (m_nodes m1) \<and>
               List.map_filter layer_name (m_nodes m1) =
                 [''res_1_branch_2_a'', ''res_1_branch_2_b'', ''res_2_branch_2_a'',
                  ''res_2_branch_2_b'', ''res_3_branch_2_a'', ''res_3_branch_2_b'',
                  ''res_4_branch_2_a'', ''res_4_branch_2_b'', ''res_5_branch_2_a'',
                  ''res_5_branch_2_b'', ''res_6_branch_2_a'', ''res_6_branch_2_b'',
                  ''res_7_branch_2_a'', ''res_7_branch_2_b'', ''res_8_branch_2_a'',
                  ''res_8_branch_2_b'', ''res_9_branch_2_a'', ''res_9_branch_2_b''])) \<and>
         wf_world (snd (cell_detector keras2 sh w1))"
proof -
  obtain H W C where sh: "sh = (H, W, C)"
    by (cases sh) auto
  let ?d = "next_id w2 - next_id w1"
  have i: "next_id w1 + ?d = next_id w2"
    by simp
  have nodes: "map (shift_node ?d) (rev (cd_nodes (next_id w1) (H div 16) (W div 16) C)) =
      rev (cd_nodes (next_id w2) (H div 16) (W div 16) C)"
    unfolding rev_map [symmetric] cd_nodes_shift i ..
  have same: "map f (map (shift_node ?d) ns) = map f ns"
    if "\<And>n. f (shift_node ?d n) = f n" for f :: "node \<Rightarrow> 'x" and ns
    using that by simp
  have mb: "map made_by (rev (cd_nodes (next_id w2) (H div 16) (W div 16) C)) =
      map made_by (rev (cd_nodes (next_id w1) (H div 16) (W div 16) C))"
    unfolding nodes [symmetric] by (rule same) (simp add: shift_node_def)
  have os: "map out_shape (rev (cd_nodes (next_id w2) (H div 16) (W div 16) C)) =
      map out_shape (rev (cd_nodes (next_id w1) (H div 16) (W div 16) C))"
    unfolding nodes [symmetric] by (rule same) (simp add: shift_node_def)
  have "\<forall>e. fst (cell_detector keras2 sh w1) = Inl e \<longrightarrow>
            fst (cell_detector keras2 sh w2) = Inl e"
    unfolding sh cell_detector_result [OF assms(1)] cell_detector_result [OF assms(2)]
    by simp
  moreover have "\<forall>m1. fst (cell_detector keras2 sh w1) = Inr m1 \<longrightarrow>
            (\<exists>m2. fst (cell_detector keras2 sh w2) = Inr m2 \<and>
               same_structure m1 m2 \<and>
               map made_by (m_nodes m2) = map made_by (m_nodes m1) \<and>
               map out_shape (m_nodes m2) = map out_shape (m_nodes m1) \<and>
               List.map_filter layer_name (m_nodes m1) =
                 [''res_1_branch_2_a'', ''res_1_branch_2_b'', ''res_2_branch_2_a'',
                  ''res_2_branch_2_b'', ''res_3_branch_2_a'', ''res_3_branch_2_b'',
                  ''res_4_branch_2_a'', ''res_4_branch_2_b'', ''res_5_branch_2_a'',
                  ''res_5_branch_2_b'', ''res_6_branch_2_a'', ''res_6_branch_2_b'',
                  ''res_7_branch_2_a'', ''res_7_branch_2_b'', ''res_8_branch_2_a'',
                  ''res_8_branch_2_b'', ''res_9_branch_2_a'', ''res_9_branch_2_b''])"
    unfolding sh cell_detector_result [OF assms(1)] cell_detector_result [OF assms(2)]
    by (simp add: same_structure_def Let_def nodes mb os cd_nodes_names off_def)
  ultimately show ?thesis
    using cell_detector_wf [OF assms(1), of sh] by blast
qed

theorem C10_deterministic_witness:
  "wf_world world0 \<and> wf_world (snd (cell_detector keras2 (128, 128, 3) world0)) \<and>
   (\<exists>m1 m2. fst (cell_detector keras2 (128, 128, 3) world0) = Inr m1 \<and>
      fst (cell_detector keras2 (128, 128, 3)
             (snd (cell_detector keras2 (128, 128, 3) world0))) = Inr m2 \<and>
      same_structure m1 m2)"
proof -
  have wf: "wf_world (snd (cell_detector keras2 (128, 128, 3) world0))"
    by (rule cell_detector_wf [OF wf_world0])
  obtain m1 where m1: "fst (cell_detector keras2 (128, 128, 3) world0) = Inr m1"
    unfolding cell_detector_result [OF wf_world0] by simp
  show ?thesis
    using C10_deterministic [OF wf_world0 wf, of "(128, 128, 3)"] m1 wf_world0 wf by blast
qed







end
